theory Spec2Isabelle
  imports Main "HOL-Library.AList"
begin

section \<open>Shared values\<close>

text \<open>
  The errors of \<open>ERROR\<close> (package utils) that the modelled code formats, each with the
  parameters handed to \<open>format\<close>. \<open>EXTERNAL\<close> is an error raised by a collaborator outside
  the modelled code (storage, transport, crypto), carried as its message.
\<close>

datatype reason =
    NO_MATCHING_TOPIC string string
  | EXPIRED string
  | RESTORE_WILL_OVERRIDE string
  | UNAUTHORIZED_MATCHING_CONTROLLER bool
  | NO_MATCHING_RESPONSE string
  | MISSING_OR_INVALID string
  | RELAY_PROTOCOL_NOT_SUPPORTED string
  | EXTERNAL string

text \<open>
  The state of a promise when the modelled call has run as far as it can: resolved with a
  value, rejected with an error, or still pending on the \<open>enabled\<close> event of the
  subscription store (\<open>isEnabled\<close>).
\<close>

datatype 'a promise = Resolved 'a | Rejected reason | Awaiting

text \<open>
  A JavaScript object with string keys, as the map from its own property names to their
  values. \<open>spread a b\<close> is the object literal \<open>{...a, ...b}\<close>: the properties of \<open>a\<close>,
  overwritten or extended by each property of \<open>b\<close>.
\<close>

type_synonym 'v obj = "string \<rightharpoonup> 'v"

definition spread :: "'v obj \<Rightarrow> 'v obj \<Rightarrow> 'v obj" where
  "spread a b = a ++ b"

text \<open>\<open>Array.prototype.join\<close> on strings.\<close>

fun join :: "string \<Rightarrow> string list \<Rightarrow> string" where
  "join sep [] = []"
| "join sep [x] = x"
| "join sep (x # y # ys) = x @ sep @ join sep (y # ys)"

record ProtocolOptions =
  protocol :: string
  params :: "string option"

section \<open>Constants\<close>

text \<open>
  Modelled from the spec: \<open>FIVE_SECONDS\<close> is declared in constants/time.ts, which is not
  among the sources; the spec gives the beat as a 5-second tick, and
  \<open>CLIENT_BEAT_INTERVAL\<close> multiplies it by 1000 to milliseconds.
\<close>

definition FIVE_SECONDS :: int where
  "FIVE_SECONDS = 5"

definition CLIENT_BEAT_INTERVAL :: int where
  "CLIENT_BEAT_INTERVAL = FIVE_SECONDS * 1000"

definition RELAYER_DEFAULT_PROTOCOL :: string where
  "RELAYER_DEFAULT_PROTOCOL = ''waku''"

section \<open>The subscription store (class Subscription)\<close>

record SubscriptionOptions =
  opts_relay :: ProtocolOptions
  opts_expiry :: "int option"

record 'seq SubscriptionParams =
  topic :: string
  sequence :: 'seq
  relay :: ProtocolOptions
  expiry :: int

datatype 'seq SubscriptionEvent =
    Created string string 'seq
  | Updated string string 'seq 'seq
  | Deleted string string 'seq reason
  | Enabled
  | Disabled

text \<open>
  A timer handle of the \<open>timeout\<close> map: the delay it was armed with, and whether
  \<open>clearTimeout\<close> has been called on it.
\<close>

record Timeout =
  delay :: int
  cleared :: bool

text \<open>
  A call of an async method that the caller does not await. Its body runs after the
  caller's synchronous code, so the call is recorded in \<open>started\<close> and run by
  \<open>run_started\<close>.
\<close>

datatype 'seq call = Delete_call string reason | Update_call string 'seq

text \<open>
  The fields of the class: the two maps and the \<open>cached\<close> array, then what the store
  does to its collaborators: \<open>nested_context\<close> is the value of \<open>getNestedContext()\<close> (the
  last two segments of the logger's context), \<open>emitted\<close> the events emitted on
  \<open>client.events\<close> in order, \<open>logged\<close> the arguments of \<open>logger.error\<close> in order, and
  \<open>started\<close> the calls started and not yet run. What the listeners of these events do
  (\<open>persist\<close> to storage, the relayer's \<open>subscribe\<close> and \<open>unsubscribe\<close>) changes no field
  of the store and is left out.
  \<open>subscriptions\<close> is a JavaScript \<open>Map\<close>: an association list in insertion order,
  written with \<open>AList.update\<close> (\<open>Map.set\<close>) and \<open>AList.delete\<close> (\<open>Map.delete\<close>) and read
  with \<open>map_of\<close> (\<open>Map.get\<close>).
\<close>

record 'seq Subscription =
  subscriptions :: "(string \<times> 'seq SubscriptionParams) list"
  timeout :: "string \<rightharpoonup> Timeout"
  cached :: "'seq SubscriptionParams list"
  nested_context :: "string list"
  emitted :: "'seq SubscriptionEvent list"
  logged :: "reason list"
  started :: "'seq call list"

definition values_of :: "'seq Subscription \<Rightarrow> 'seq SubscriptionParams list" where
  "values_of s = map snd (subscriptions s)"

definition topics :: "'seq Subscription \<Rightarrow> string list" where
  "topics s = map fst (subscriptions s)"

definition getSubscriptionContext :: "'seq Subscription \<Rightarrow> string" where
  "getSubscriptionContext s = join '' '' (nested_context s)"

definition getSubscriptionEventTag :: "'seq Subscription \<Rightarrow> string" where
  "getSubscriptionEventTag s = join ''/'' (nested_context s)"

definition emit :: "'seq SubscriptionEvent \<Rightarrow> 'seq Subscription \<Rightarrow> 'seq Subscription" where
  "emit ev s = s\<lparr>emitted := emitted s @ [ev]\<rparr>"

definition logger_error :: "reason \<Rightarrow> 'seq Subscription \<Rightarrow> 'seq Subscription" where
  "logger_error e s = s\<lparr>logged := logged s @ [e]\<rparr>"

text \<open>\<open>isEnabled\<close> returns at once when \<open>cached\<close> is empty and otherwise waits for \<open>enabled\<close>.\<close>

definition isEnabled :: "'seq Subscription \<Rightarrow> bool" where
  "isEnabled s = (cached s = [])"

definition getSubscription ::
  "'seq Subscription \<Rightarrow> string \<Rightarrow> 'seq SubscriptionParams promise \<times> 'seq Subscription" where
  "getSubscription s tp =
     (if \<not> isEnabled s then (Awaiting, s)
      else case map_of (subscriptions s) tp of
        None \<Rightarrow>
          (Rejected (NO_MATCHING_TOPIC (getSubscriptionContext s) tp),
           logger_error (NO_MATCHING_TOPIC (getSubscriptionContext s) tp) s)
      | Some subscription \<Rightarrow> (Resolved subscription, s))"

definition get :: "'seq Subscription \<Rightarrow> string \<Rightarrow> 'seq promise \<times> 'seq Subscription" where
  "get s tp =
     (if \<not> isEnabled s then (Awaiting, s)
      else case getSubscription s tp of
        (Resolved subscription, s') \<Rightarrow> (Resolved (sequence subscription), s')
      | (Rejected e, s') \<Rightarrow> (Rejected e, s')
      | (Awaiting, s') \<Rightarrow> (Awaiting, s'))"

definition update ::
  "'v obj Subscription \<Rightarrow> string \<Rightarrow> 'v obj \<Rightarrow> unit promise \<times> 'v obj Subscription" where
  "update s tp upd =
     (if \<not> isEnabled s then (Awaiting, s)
      else case getSubscription s tp of
        (Resolved subscription, s') \<Rightarrow>
          (let sequence' = spread (sequence subscription) upd;
               s'' = s'\<lparr>subscriptions :=
                        AList.update tp (subscription\<lparr>topic := tp, sequence := sequence'\<rparr>)
                          (subscriptions s')\<rparr>
           in (Resolved (),
               emit (Updated (getSubscriptionEventTag s'') tp sequence' upd) s''))
      | (Rejected e, s') \<Rightarrow> (Rejected e, s')
      | (Awaiting, s') \<Rightarrow> (Awaiting, s'))"

definition delete ::
  "'seq Subscription \<Rightarrow> string \<Rightarrow> reason \<Rightarrow> unit promise \<times> 'seq Subscription" where
  "delete s tp rsn =
     (if \<not> isEnabled s then (Awaiting, s)
      else case getSubscription s tp of
        (Resolved subscription, s') \<Rightarrow>
          (let s'' = s'\<lparr>subscriptions := AList.delete tp (subscriptions s')\<rparr>
           in (Resolved (),
               emit (Deleted (getSubscriptionEventTag s'') tp (sequence subscription) rsn) s''))
      | (Rejected e, s') \<Rightarrow> (Rejected e, s')
      | (Awaiting, s') \<Rightarrow> (Awaiting, s'))"

definition deleteTimeout :: "'seq Subscription \<Rightarrow> string \<Rightarrow> 'seq Subscription" where
  "deleteTimeout s tp =
     (case timeout s tp of
        None \<Rightarrow> s
      | Some t \<Rightarrow> s\<lparr>timeout := (timeout s)(tp \<mapsto> t\<lparr>cleared := True\<rparr>)\<rparr>)"

definition resetTimeout :: "'seq Subscription \<Rightarrow> 'seq Subscription" where
  "resetTimeout s = s\<lparr>timeout := Map.empty\<rparr>"

text \<open>
  \<open>onTimeout\<close> calls \<open>delete\<close> without awaiting it; the reason is formatted at the call.
\<close>

definition onTimeout :: "'seq Subscription \<Rightarrow> string \<Rightarrow> 'seq Subscription" where
  "onTimeout s tp =
     (let s' = deleteTimeout s tp
      in s'\<lparr>started := started s' @ [Delete_call tp (EXPIRED (getSubscriptionContext s'))]\<rparr>)"

text \<open>
  \<open>setTimeout(topic, expiry)\<close> of the class; \<open>now\<close> is the value of \<open>Date.now()\<close>, in
  milliseconds.
\<close>

definition setTimeout :: "int \<Rightarrow> 'seq Subscription \<Rightarrow> string \<Rightarrow> int \<Rightarrow> 'seq Subscription" where
  "setTimeout now s tp expiry' =
     (if timeout s tp \<noteq> None then s
      else let ttl = expiry' - now
           in if ttl \<le> 0 then onTimeout s tp
              else if ttl > CLIENT_BEAT_INTERVAL then s
              else s\<lparr>timeout := (timeout s)(tp \<mapsto> \<lparr>delay = ttl, cleared = False\<rparr>)\<rparr>)"

text \<open>
  \<open>subscribeAndSet\<close>. \<open>SUBSCRIPTION_DEFAULT_TTL\<close> (constants/subscription.ts, not among
  the sources) is the parameter \<open>default_ttl\<close>, in seconds. \<open>opts.expiry || ...\<close> takes the
  default for a missing expiry and for the falsy expiry 0. One clock reading serves the
  whole synchronous call.
\<close>

definition subscribeAndSet ::
  "int \<Rightarrow> int \<Rightarrow> 'seq Subscription \<Rightarrow> string \<Rightarrow> 'seq \<Rightarrow> SubscriptionOptions \<Rightarrow> 'seq Subscription" where
  "subscribeAndSet default_ttl now s tp sq opts =
     (let expiry' = (case opts_expiry opts of
                       None \<Rightarrow> now + default_ttl * 1000
                     | Some e \<Rightarrow> if e = 0 then now + default_ttl * 1000 else e);
          s' = s\<lparr>subscriptions :=
                   AList.update tp
                     \<lparr>topic = tp, sequence = sq, relay = opts_relay opts, expiry = expiry'\<rparr>
                     (subscriptions s)\<rparr>
      in setTimeout now s' tp expiry')"

text \<open>
  \<open>set\<close>: for a topic already present, \<open>update\<close> is called and not awaited; otherwise the
  entry is inserted and \<open>created\<close> is emitted.
\<close>

definition set_subscription ::
  "int \<Rightarrow> int \<Rightarrow> 'v obj Subscription \<Rightarrow> string \<Rightarrow> 'v obj \<Rightarrow> SubscriptionOptions
     \<Rightarrow> unit promise \<times> 'v obj Subscription" where
  "set_subscription default_ttl now s tp sq opts =
     (if \<not> isEnabled s then (Awaiting, s)
      else if map_of (subscriptions s) tp \<noteq> None
        then (Resolved (), s\<lparr>started := started s @ [Update_call tp sq]\<rparr>)
      else let s' = subscribeAndSet default_ttl now s tp sq opts
           in (Resolved (), emit (Created (getSubscriptionEventTag s') tp sq) s'))"

text \<open>The beat listener: \<open>subscriptions.forEach\<close> in insertion order.\<close>

definition checkSubscriptions :: "int \<Rightarrow> 'seq Subscription \<Rightarrow> 'seq Subscription" where
  "checkSubscriptions now s =
     fold (\<lambda>subscription s'. setTimeout now s' (topic subscription) (expiry subscription))
       (values_of s) s"

text \<open>
  The runtime fires the timer held for a topic: its callback is \<open>onTimeout(topic)\<close>. A
  cleared timer never fires.
\<close>

definition timer_fires :: "'seq Subscription \<Rightarrow> string \<Rightarrow> 'seq Subscription" where
  "timer_fires s tp =
     (case timeout s tp of
        None \<Rightarrow> s
      | Some t \<Rightarrow> if cleared t then s else onTimeout s tp)"

text \<open>
  Running the calls that were started and not awaited, oldest first. A call that is still
  waiting for \<open>enabled\<close> stays started; a rejection is nobody's to handle and leaves only
  what the call did before it.
\<close>

fun run_call :: "'v obj call \<Rightarrow> 'v obj Subscription \<Rightarrow> unit promise \<times> 'v obj Subscription" where
  "run_call (Delete_call tp rsn) s = delete s tp rsn"
| "run_call (Update_call tp upd) s = update s tp upd"

definition run_started :: "'v obj Subscription \<Rightarrow> 'v obj Subscription" where
  "run_started s =
     fold (\<lambda>c s'. case run_call c s' of
                     (Awaiting, s'') \<Rightarrow> s''\<lparr>started := started s'' @ [c]\<rparr>
                   | (_, s'') \<Rightarrow> s'')
       (started s) (s\<lparr>started := []\<rparr>)"

definition new_Subscription :: "string list \<Rightarrow> 'seq Subscription" where
  "new_Subscription ctx =
     \<lparr>subscriptions = [], timeout = Map.empty, cached = [], nested_context = ctx,
      emitted = [], logged = [], started = []\<rparr>"

definition enable :: "'seq Subscription \<Rightarrow> 'seq Subscription" where
  "enable s = emit Enabled (s\<lparr>cached := []\<rparr>)"

definition disable :: "'seq Subscription \<Rightarrow> 'seq Subscription" where
  "disable s =
     emit Disabled
       (resetTimeout (if cached s = [] then s\<lparr>cached := values_of s\<rparr> else s))"

text \<open>
  \<open>restore\<close>. \<open>storage_read\<close> is the outcome of \<open>client.storage.getItem\<close> for the store's
  key: \<open>Inl\<close> a rejection, \<open>Inr None\<close> for \<open>undefined\<close>, \<open>Inr (Some persisted)\<close> otherwise.
  \<open>restore_try\<close> is the body of the \<open>try\<close> block, \<open>restore\<close> adds the \<open>catch\<close>.
\<close>

definition restore_try ::
  "(reason + 'seq SubscriptionParams list option) \<Rightarrow> int \<Rightarrow> int \<Rightarrow> 'seq Subscription
     \<Rightarrow> unit promise \<times> 'seq Subscription" where
  "restore_try storage_read default_ttl now s =
     (case storage_read of
        Inl e \<Rightarrow> (Rejected e, s)
      | Inr None \<Rightarrow> (Resolved (), s)
      | Inr (Some persisted) \<Rightarrow>
          if persisted = [] then (Resolved (), s)
          else if subscriptions s \<noteq> []
            then (Rejected (RESTORE_WILL_OVERRIDE (getSubscriptionContext s)),
                  logger_error (RESTORE_WILL_OVERRIDE (getSubscriptionContext s)) s)
          else let s' = s\<lparr>cached := persisted\<rparr>;
                   s'' = fold (\<lambda>subscription t.
                                 subscribeAndSet default_ttl now t
                                   (topic subscription) (sequence subscription)
                                   \<lparr>opts_relay = relay subscription,
                                    opts_expiry = Some (expiry subscription)\<rparr>)
                           (cached s') s'
               in (Resolved (), enable s''))"

definition restore ::
  "(reason + 'seq SubscriptionParams list option) \<Rightarrow> int \<Rightarrow> int \<Rightarrow> 'seq Subscription
     \<Rightarrow> unit promise \<times> 'seq Subscription" where
  "restore storage_read default_ttl now s =
     (case restore_try storage_read default_ttl now s of
        (Rejected e, s') \<Rightarrow> (Resolved (), logger_error e s')
      | r \<Rightarrow> r)"

definition init ::
  "(reason + 'seq SubscriptionParams list option) \<Rightarrow> int \<Rightarrow> int \<Rightarrow> 'seq Subscription
     \<Rightarrow> unit promise \<times> 'seq Subscription" where
  "init storage_read default_ttl now s = restore storage_read default_ttl now s"

section \<open>The relayer (class Relayer)\<close>

record PublishOptions =
  pub_relay :: ProtocolOptions
  pub_ttl :: "int option"

record UnsubscribeOptions =
  unsub_relay :: ProtocolOptions
  unsub_id :: "string option"

record RelayJsonRpc =
  rpc_publish :: string
  rpc_subscribe :: string
  rpc_subscription :: string
  rpc_unsubscribe :: string

datatype RequestParams =
    PublishParams string string int
  | SubscribeParams string
  | UnsubscribeParams string

record RequestArguments =
  rpc_method :: string
  rpc_params :: RequestParams

text \<open>
  What the relayer calls outside its class: the transport (\<open>provider.request\<close>, \<open>Inl\<close> a
  rejection and \<open>Inr\<close> the result), the crypto controller (\<open>hasKeys\<close>, \<open>encrypt\<close>), the
  packages safe-json-utils and enc-utils, the protocols the table \<open>RELAY_JSONRPC\<close> of
  package relay-provider knows, and the constant \<open>RELAYER_DEFAULT_PUBLISH_TTL\<close> (its value
  \<open>SIX_HOURS\<close> is declared in constants/time.ts, not among the sources). \<open>'p\<close> is the
  type of a JSON-RPC payload.
\<close>

record 'p Collaborators =
  provider_request :: "RequestArguments \<Rightarrow> reason + string"
  hasKeys :: "string \<Rightarrow> bool"
  encrypt :: "string \<Rightarrow> string \<Rightarrow> reason + string"
  safeJsonStringify :: "'p \<Rightarrow> string"
  utf8ToHex :: "string \<Rightarrow> string"
  supported_protocols :: "string list"
  RELAYER_DEFAULT_PUBLISH_TTL :: int

text \<open>
  Modelled from the spec: the table \<open>RELAY_JSONRPC\<close> belongs to package relay-provider,
  which is not among the sources; the spec gives, per protocol, the methods
  \<open><proto>_publish\<close>, \<open><proto>_subscribe\<close>, \<open><proto>_unsubscribe\<close> and the push
  \<open><proto>_subscription\<close>.
\<close>

definition RELAY_JSONRPC :: "string list \<Rightarrow> string \<Rightarrow> RelayJsonRpc option" where
  "RELAY_JSONRPC supported p =
     (if p \<in> set supported
      then Some \<lparr>rpc_publish = p @ ''_publish'', rpc_subscribe = p @ ''_subscribe'',
                 rpc_subscription = p @ ''_subscription'',
                 rpc_unsubscribe = p @ ''_unsubscribe''\<rparr>
      else None)"

definition getRelayProtocolJsonRpc :: "string list \<Rightarrow> string \<Rightarrow> reason + RelayJsonRpc" where
  "getRelayProtocolJsonRpc supported p =
     (case RELAY_JSONRPC supported p of
        None \<Rightarrow> Inl (RELAY_PROTOCOL_NOT_SUPPORTED p)
      | Some jsonrpc \<Rightarrow> Inr jsonrpc)"

text \<open>
  The fields of the class: the map from a topic to its subscription ids, then what the
  relayer does to its collaborators: the listeners registered on \<open>events\<close> under a
  subscription id (each with the topic it re-emits under), the requests handed to
  \<open>provider.request\<close> in order, and the arguments of \<open>logger.error\<close>.
\<close>

record Relayer =
  relayer_subscriptions :: "(string \<times> string list) list"
  listeners :: "(string \<times> string) list"
  requests :: "RequestArguments list"
  relayer_logged :: "reason list"

definition relayer_error :: "reason \<Rightarrow> Relayer \<Rightarrow> Relayer" where
  "relayer_error e r = r\<lparr>relayer_logged := relayer_logged r @ [e]\<rparr>"

text \<open>\<open>opts?.relay.protocol || RELAYER_DEFAULT_PROTOCOL\<close>: the empty string is falsy.\<close>

definition protocol_or_default :: "ProtocolOptions option \<Rightarrow> string" where
  "protocol_or_default r =
     (case r of
        None \<Rightarrow> RELAYER_DEFAULT_PROTOCOL
      | Some x \<Rightarrow> if protocol x = [] then RELAYER_DEFAULT_PROTOCOL else protocol x)"

text \<open>
  \<open>publish\<close>. Every throw inside the \<open>try\<close> block is logged and thrown again by the
  \<open>catch\<close>. \<open>opts?.ttl || RELAYER_DEFAULT_PUBLISH_TTL\<close> takes the default for the falsy
  ttl 0.
\<close>

definition publish ::
  "'p Collaborators \<Rightarrow> Relayer \<Rightarrow> string \<Rightarrow> 'p \<Rightarrow> PublishOptions option
     \<Rightarrow> unit promise \<times> Relayer" where
  "publish c r tp payload opts =
     (let protocol' = protocol_or_default (map_option pub_relay opts);
          msg = safeJsonStringify c payload
      in case (if hasKeys c tp then encrypt c tp msg else Inr (utf8ToHex c msg)) of
           Inl e \<Rightarrow> (Rejected e, relayer_error e r)
         | Inr message \<Rightarrow>
             (case getRelayProtocolJsonRpc (supported_protocols c) protocol' of
                Inl e \<Rightarrow> (Rejected e, relayer_error e r)
              | Inr jsonRpc \<Rightarrow>
                  (let request =
                         \<lparr>rpc_method = rpc_publish jsonRpc,
                          rpc_params = PublishParams tp message
                            (case Option.bind opts pub_ttl of
                               None \<Rightarrow> RELAYER_DEFAULT_PUBLISH_TTL c
                             | Some ttl \<Rightarrow>
                                 if ttl = 0 then RELAYER_DEFAULT_PUBLISH_TTL c else ttl)\<rparr>;
                       r' = r\<lparr>requests := requests r @ [request]\<rparr>
                   in case provider_request c request of
                        Inl e \<Rightarrow> (Rejected e, relayer_error e r')
                      | Inr _ \<Rightarrow> (Resolved (), r'))))"

definition subscribe ::
  "'p Collaborators \<Rightarrow> Relayer \<Rightarrow> string \<Rightarrow> ProtocolOptions option
     \<Rightarrow> string promise \<times> Relayer" where
  "subscribe c r tp relay' =
     (case getRelayProtocolJsonRpc (supported_protocols c) (protocol_or_default relay') of
        Inl e \<Rightarrow> (Rejected e, relayer_error e r)
      | Inr jsonRpc \<Rightarrow>
          (let request = \<lparr>rpc_method = rpc_subscribe jsonRpc, rpc_params = SubscribeParams tp\<rparr>;
               r' = r\<lparr>requests := requests r @ [request]\<rparr>
           in case provider_request c request of
                Inl e \<Rightarrow> (Rejected e, relayer_error e r')
              | Inr id' \<Rightarrow>
                  (let subs = (case map_of (relayer_subscriptions r') tp of
                                 None \<Rightarrow> [] | Some xs \<Rightarrow> xs)
                   in (Resolved id',
                       r'\<lparr>relayer_subscriptions :=
                            AList.update tp (subs @ [id']) (relayer_subscriptions r'),
                          listeners := listeners r' @ [(id', tp)]\<rparr>))))"

text \<open>
  \<open>unsubscribeId\<close>: after the relay has answered, the listeners of the id are removed and
  the topic's ids are replaced by \<open>subscriptions.filter(x => x === id)\<close>.
\<close>

definition unsubscribeId ::
  "'p Collaborators \<Rightarrow> Relayer \<Rightarrow> string \<Rightarrow> string \<Rightarrow> UnsubscribeOptions option
     \<Rightarrow> unit promise \<times> Relayer" where
  "unsubscribeId c r tp id' opts =
     (case getRelayProtocolJsonRpc (supported_protocols c)
             (protocol_or_default (map_option unsub_relay opts)) of
        Inl e \<Rightarrow> (Rejected e, relayer_error e r)
      | Inr jsonRpc \<Rightarrow>
          (let request =
                 \<lparr>rpc_method = rpc_unsubscribe jsonRpc, rpc_params = UnsubscribeParams id'\<rparr>;
               r' = r\<lparr>requests := requests r @ [request]\<rparr>
           in case provider_request c request of
                Inl e \<Rightarrow> (Rejected e, relayer_error e r')
              | Inr _ \<Rightarrow>
                  (let r'' = r'\<lparr>listeners := filter (\<lambda>(i, _). i \<noteq> id') (listeners r')\<rparr>
                   in (Resolved (),
                       case map_of (relayer_subscriptions r'') tp of
                         None \<Rightarrow> r''
                       | Some subs \<Rightarrow>
                           r''\<lparr>relayer_subscriptions :=
                                 AList.update tp (filter (\<lambda>x. x = id') subs)
                                   (relayer_subscriptions r'')\<rparr>))))"

text \<open>
  \<open>Promise.all(subscriptions.map(id => this.unsubscribeId(topic, id, opts)))\<close>: one call
  per id, in the order of the array, the relay answering in the order asked. Every call
  runs whatever the others do; the first rejection is the one \<open>Promise.all\<close> rejects with.
\<close>

fun unsubscribeIds ::
  "'p Collaborators \<Rightarrow> string \<Rightarrow> UnsubscribeOptions option \<Rightarrow> string list \<Rightarrow> Relayer
     \<Rightarrow> unit promise \<times> Relayer" where
  "unsubscribeIds c tp opts [] r = (Resolved (), r)"
| "unsubscribeIds c tp opts (id' # ids) r =
     (case unsubscribeId c r tp id' opts of
        (Rejected e, r') \<Rightarrow> (Rejected e, snd (unsubscribeIds c tp opts ids r'))
      | (_, r') \<Rightarrow> unsubscribeIds c tp opts ids r')"

text \<open>\<open>unsubscribe\<close>; its \<open>catch\<close> logs the error once more and throws it again.\<close>

definition unsubscribe ::
  "'p Collaborators \<Rightarrow> Relayer \<Rightarrow> string \<Rightarrow> UnsubscribeOptions option
     \<Rightarrow> unit promise \<times> Relayer" where
  "unsubscribe c r tp opts =
     (case (case Option.bind opts unsub_id of
              Some id' \<Rightarrow> unsubscribeId c r tp id' opts
            | None \<Rightarrow>
                (case map_of (relayer_subscriptions r) tp of
                   None \<Rightarrow> (Resolved (), r)
                 | Some subs \<Rightarrow> unsubscribeIds c tp opts subs r)) of
        (Rejected e, r') \<Rightarrow> (Rejected e, relayer_error e r')
      | res \<Rightarrow> res)"

section \<open>The pairing controller (class Pairing)\<close>

text \<open>
  The types of a settled pairing and of an upgrade, as far as the code reads them. An
  upgrade names each permission group optionally (\<open>upgrade.permissions.jsonrpc?.methods\<close>).
\<close>

record AppMetadata =
  md_name :: string
  md_description :: string
  md_url :: string
  md_icons :: "string list"

record JsonRpcPermissions =
  methods :: "string list"

record NotificationPermissions =
  types :: "string list"

record Participant =
  publicKey :: string
  participant_metadata :: "AppMetadata option"

record SettledPermissions =
  jsonrpc :: JsonRpcPermissions
  notifications :: NotificationPermissions
  controller :: string

record ProposedPermissions =
  proposed_jsonrpc :: "JsonRpcPermissions option"
  proposed_notifications :: "NotificationPermissions option"

record PairingState =
  metadata :: "AppMetadata option"

record PairingSettled =
  settled_topic :: string
  settled_relay :: ProtocolOptions
  self :: Participant
  peer :: Participant
  permissions :: SettledPermissions
  settled_expiry :: int
  state :: PairingState

text \<open>
  \<open>mergeUpgrade\<close> reads the settled pairing from the store and builds the permissions;
  \<open>upgraded_permissions\<close> is the object literal it returns. \<open>controller\<close> stands for
  \<open>permissions.controller\<close>, an object holding one public key.
\<close>

definition upgraded_permissions :: "PairingSettled \<Rightarrow> ProposedPermissions \<Rightarrow> SettledPermissions" where
  "upgraded_permissions settled upgrade =
     \<lparr>jsonrpc =
        \<lparr>methods = methods (jsonrpc (permissions settled)) @
                    (case proposed_jsonrpc upgrade of None \<Rightarrow> [] | Some j \<Rightarrow> methods j)\<rparr>,
      notifications =
        \<lparr>types = types (notifications (permissions settled)) @
                  (case proposed_notifications upgrade of None \<Rightarrow> [] | Some n \<Rightarrow> types n)\<rparr>,
      controller = controller (permissions settled)\<rparr>"

definition mergeUpgrade ::
  "PairingSettled Subscription \<Rightarrow> string \<Rightarrow> ProposedPermissions
     \<Rightarrow> SettledPermissions promise \<times> PairingSettled Subscription" where
  "mergeUpgrade settled_store tp upgrade =
     (case get settled_store tp of
        (Resolved settled, s') \<Rightarrow> (Resolved (upgraded_permissions settled upgrade), s')
      | (Rejected e, s') \<Rightarrow> (Rejected e, s')
      | (Awaiting, s') \<Rightarrow> (Awaiting, s'))"

definition mergeUpdate ::
  "PairingSettled Subscription \<Rightarrow> string \<Rightarrow> PairingState
     \<Rightarrow> PairingState promise \<times> PairingSettled Subscription" where
  "mergeUpdate settled_store tp upd =
     (case get settled_store tp of
        (Resolved settled, s') \<Rightarrow>
          (Resolved \<lparr>metadata = (case metadata upd of
                                    Some m \<Rightarrow> Some m
                                  | None \<Rightarrow> metadata (state settled))\<rparr>, s')
      | (Rejected e, s') \<Rightarrow> (Rejected e, s')
      | (Awaiting, s') \<Rightarrow> (Awaiting, s'))"

text \<open>
  Modelled from the spec: \<open>Engine.upgrade\<close> is defined in controllers/engine.ts, which is
  not among the sources. By the spec an upgrade that succeeds leaves the settled sequence
  with the merged permissions; \<open>upgrade_applied\<close> is that one step on the settled pairing.
\<close>

definition upgrade_applied :: "ProposedPermissions \<Rightarrow> PairingSettled \<Rightarrow> PairingSettled" where
  "upgrade_applied upgrade settled =
     settled\<lparr>permissions := upgraded_permissions settled upgrade\<rparr>"

text \<open>
  The union of two ordered sets as the spec's data model has them (lists without
  repetition): the first, then the elements the second adds.
\<close>

definition ordered_union :: "string list \<Rightarrow> string list \<Rightarrow> string list" where
  "ordered_union xs ys = xs @ filter (\<lambda>y. y \<notin> set xs) ys"

section \<open>The client (class Client)\<close>

text \<open>
  Modelled from the spec: the constants below are declared in constants/pairing.ts and
  constants/session.ts, which are not among the sources. The spec names the method
  \<open>wc_sessionPropose\<close>, the signals \<open>uri\<close> and \<open>pairing\<close>, and (scenario S1) a pairing
  proposal's ttl of 2592000 seconds.
\<close>

definition SESSION_JSONRPC_propose :: string where
  "SESSION_JSONRPC_propose = ''wc_sessionPropose''"

definition PAIRING_SIGNAL_METHOD_URI :: string where
  "PAIRING_SIGNAL_METHOD_URI = ''uri''"

definition SESSION_SIGNAL_METHOD_PAIRING :: string where
  "SESSION_SIGNAL_METHOD_PAIRING = ''pairing''"

definition PAIRING_DEFAULT_TTL :: int where
  "PAIRING_DEFAULT_TTL = 2592000"

record Proposer =
  proposer_publicKey :: string
  proposer_controller :: bool

record Signal =
  signal_method :: string
  signal_params :: string

record 'perm Proposal =
  proposal_topic :: string
  proposal_relay :: ProtocolOptions
  proposer :: Proposer
  signal :: Signal
  proposal_permissions :: 'perm
  ttl :: int

record UriParams =
  uri_topic :: string
  uri_relay :: ProtocolOptions
  uri_publicKey :: string
  uri_controller :: bool

text \<open>
  \<open>formatPairingProposal\<close>; \<open>parseUri\<close> (package utils, not among the sources) is a
  parameter.
\<close>

definition formatPairingProposal ::
  "(string \<Rightarrow> UriParams) \<Rightarrow> string \<Rightarrow> ProposedPermissions Proposal" where
  "formatPairingProposal parseUri uri =
     (let uriParams = parseUri uri
      in \<lparr>proposal_topic = uri_topic uriParams,
          proposal_relay = uri_relay uriParams,
          proposer = \<lparr>proposer_publicKey = uri_publicKey uriParams,
                      proposer_controller = uri_controller uriParams\<rparr>,
          signal = \<lparr>signal_method = PAIRING_SIGNAL_METHOD_URI, signal_params = uri\<rparr>,
          proposal_permissions =
            \<lparr>proposed_jsonrpc = Some \<lparr>methods = [SESSION_JSONRPC_propose]\<rparr>,
             proposed_notifications = Some \<lparr>types = []\<rparr>\<rparr>,
          ttl = PAIRING_DEFAULT_TTL\<rparr>)"

text \<open>
  The parameters of \<open>respond\<close>, the pending sequence it returns, and what an engine holds
  and sends, as far as the client reads them.
\<close>

record ('perm, 'resp) RespondParams =
  approved :: bool
  proposal :: "'perm Proposal"
  response :: "'resp option"
  respond_reason :: "reason option"

datatype outcome = Outcome_failed "reason option" | Outcome_settled string

datatype status = Proposed | Responded

record 'perm Pending =
  pending_status :: status
  pending_proposal :: "'perm Proposal"
  pending_outcome :: "outcome option"

datatype 'resp reply = Approve string "'resp option" | Reject "reason option"

record ('perm, 'resp) Engine =
  engine_pending :: "'perm Pending list"
  engine_settled :: "string list"
  engine_replies :: "(string \<times> 'resp reply) list"

text \<open>
  Modelled from the spec: \<open>Engine.respond\<close> is defined in controllers/engine.ts, which is
  not among the sources. By the spec, an approved response derives the settled topic,
  stores the settled sequence and replies on the proposal topic with an approve payload;
  a response that is not approved replies with \<open>reject{reason}\<close> and stores no settled
  sequence. The pending sequence is stored as responded in both cases.
  \<open>derive\<close> is the derivation of the settled topic from the proposal (key agreement).
\<close>

definition Engine_respond ::
  "('perm Proposal \<Rightarrow> string) \<Rightarrow> ('perm, 'resp) RespondParams \<Rightarrow> ('perm, 'resp) Engine
     \<Rightarrow> 'perm Pending promise \<times> ('perm, 'resp) Engine" where
  "Engine_respond derive ps e =
     (if approved ps
      then (let settled = derive (proposal ps);
                pending = \<lparr>pending_status = Responded, pending_proposal = proposal ps,
                           pending_outcome = Some (Outcome_settled settled)\<rparr>
            in (Resolved pending,
                e\<lparr>engine_pending := engine_pending e @ [pending],
                  engine_settled := engine_settled e @ [settled],
                  engine_replies := engine_replies e @
                    [(proposal_topic (proposal ps), Approve settled (response ps))]\<rparr>))
      else (let pending = \<lparr>pending_status = Responded, pending_proposal = proposal ps,
                           pending_outcome = Some (Outcome_failed (respond_reason ps))\<rparr>
            in (Resolved pending,
                e\<lparr>engine_pending := engine_pending e @ [pending],
                  engine_replies := engine_replies e @
                    [(proposal_topic (proposal ps), Reject (respond_reason ps))]\<rparr>)))"

text \<open>
  Modelled from the spec: \<open>isPairingResponded\<close> and \<open>isPairingFailed\<close> belong to package
  utils, which is not among the sources. A pending sequence is responded when its status
  says so and it has an outcome; an outcome is failed when it carries a reason instead of
  a settled topic, which is the case distinction on \<open>outcome\<close> in \<open>pair\<close>.
\<close>

definition isPairingResponded :: "'perm Pending \<Rightarrow> bool" where
  "isPairingResponded pending =
     (pending_status pending = Responded \<and> pending_outcome pending \<noteq> None)"

text \<open>
  Modelled from the spec: \<open>SESSION_EMPTY_PERMISSIONS\<close> and \<open>SESSION_EMPTY_RESPONSE\<close> are
  declared in constants/session.ts, which is not among the sources; they are taken as
  their names say: permissions with no chain, no method and no notification type, and a
  response with no state and no metadata.
\<close>

record BlockchainPermissions =
  chains :: "string list"

record SessionPermissions =
  session_blockchain :: BlockchainPermissions
  session_jsonrpc :: JsonRpcPermissions
  session_notifications :: NotificationPermissions

record SessionResponse =
  response_accounts :: "string list"
  response_metadata :: "AppMetadata option"

definition SESSION_EMPTY_PERMISSIONS :: SessionPermissions where
  "SESSION_EMPTY_PERMISSIONS =
     \<lparr>session_blockchain = \<lparr>chains = []\<rparr>, session_jsonrpc = \<lparr>methods = []\<rparr>,
      session_notifications = \<lparr>types = []\<rparr>\<rparr>"

definition SESSION_EMPTY_RESPONSE :: SessionResponse where
  "SESSION_EMPTY_RESPONSE = \<lparr>response_accounts = [], response_metadata = None\<rparr>"

text \<open>
  The client: its two readonly fields read here, the engines of its pairing and session
  controllers, and the session proposals it has emitted on its event bus.
\<close>

record Client =
  client_controller :: bool
  client_metadata :: "AppMetadata option"
  pairing_engine :: "(ProposedPermissions, unit) Engine"
  session_engine :: "(SessionPermissions, SessionResponse) Engine"
  session_proposals :: "SessionPermissions Proposal list"

text \<open>
  \<open>pair\<close>. \<open>pair_respond\<close> is the argument it hands to \<open>pairing.respond\<close>. A failed outcome
  is thrown as an error carrying the outcome's reason.
\<close>

definition pair_respond ::
  "(string \<Rightarrow> UriParams) \<Rightarrow> Client \<Rightarrow> string \<Rightarrow> (ProposedPermissions, unit) RespondParams" where
  "pair_respond parseUri cl uri =
     (let proposal' = formatPairingProposal parseUri uri;
          approved' = (proposer_controller (proposer proposal') \<noteq> client_controller cl);
          reason' = (if approved' then None
                     else Some (UNAUTHORIZED_MATCHING_CONTROLLER (client_controller cl)))
      in \<lparr>approved = approved', proposal = proposal', response = None,
          respond_reason = reason'\<rparr>)"

definition pair ::
  "(ProposedPermissions Proposal \<Rightarrow> string) \<Rightarrow> (string \<Rightarrow> UriParams) \<Rightarrow> Client \<Rightarrow> string
     \<Rightarrow> string promise \<times> Client" where
  "pair derive parseUri cl uri =
     (case Engine_respond derive (pair_respond parseUri cl uri) (pairing_engine cl) of
        (Resolved pending, e') \<Rightarrow>
          (if \<not> isPairingResponded pending
           then Rejected (NO_MATCHING_RESPONSE ''pairing'')
           else case pending_outcome pending of
                  Some (Outcome_failed (Some rsn)) \<Rightarrow> Rejected rsn
                | Some (Outcome_failed None) \<Rightarrow> Rejected (EXTERNAL ''TypeError'')
                | Some (Outcome_settled settled) \<Rightarrow> Resolved settled
                | None \<Rightarrow> Rejected (NO_MATCHING_RESPONSE ''pairing''),
           cl\<lparr>pairing_engine := e'\<rparr>)
      | (Rejected e, e') \<Rightarrow> (Rejected e, cl\<lparr>pairing_engine := e'\<rparr>)
      | (Awaiting, e') \<Rightarrow> (Awaiting, cl\<lparr>pairing_engine := e'\<rparr>))"

text \<open>
  The listener \<open>registerEventListeners\<close> puts on \<open>PAIRING_EVENTS.request\<close>: a session
  proposal arriving over a pairing.
\<close>

record PairingRequest =
  request_method :: string
  request_params :: "SessionPermissions Proposal"

definition on_pairing_request ::
  "(SessionPermissions Proposal \<Rightarrow> string) \<Rightarrow> Client \<Rightarrow> PairingRequest \<Rightarrow> Client" where
  "on_pairing_request derive cl request =
     (if request_method request = SESSION_JSONRPC_propose
      then (let proposal' = request_params request
            in if proposer_controller (proposer proposal') = client_controller cl
               then cl\<lparr>session_engine :=
                         snd (Engine_respond derive
                                \<lparr>approved = False, proposal = proposal',
                                 response = Some SESSION_EMPTY_RESPONSE,
                                 respond_reason =
                                   Some (UNAUTHORIZED_MATCHING_CONTROLLER (client_controller cl))\<rparr>
                                (session_engine cl))\<rparr>
               else cl\<lparr>session_proposals := session_proposals cl @ [proposal']\<rparr>)
      else cl)"

text \<open>
  \<open>connect\<close>. The caller's \<open>permissions\<close> object may hold a \<open>notifications\<close> property of its
  own. \<open>pairing.create\<close> and \<open>session.create\<close> run the engine (controllers/engine.ts, not
  among the sources): \<open>pairing_create\<close> is the outcome of the first and \<open>session_create\<close>
  the second as a function of its argument. \<open>pairing.get\<close> is \<open>get\<close> on the store of
  settled pairings.
\<close>

record ConnectPermissions =
  connect_blockchain :: BlockchainPermissions
  connect_jsonrpc :: JsonRpcPermissions
  connect_notifications :: "NotificationPermissions option"

record ConnectParams =
  connect_metadata :: "AppMetadata option"
  connect_relay :: "ProtocolOptions option"
  connect_permissions :: ConnectPermissions
  connect_pairing :: "string option"

record CreateParams =
  create_signal :: Signal
  create_relay :: ProtocolOptions
  create_metadata :: AppMetadata
  create_permissions :: SessionPermissions

definition connect ::
  "PairingSettled promise \<Rightarrow> (CreateParams \<Rightarrow> 'session promise) \<Rightarrow> Client
     \<Rightarrow> PairingSettled Subscription \<Rightarrow> ConnectParams
     \<Rightarrow> 'session promise \<times> PairingSettled Subscription" where
  "connect pairing_create session_create cl settled_store ps =
     (case (case connect_pairing ps of
              None \<Rightarrow> (pairing_create, settled_store)
            | Some tp \<Rightarrow> get settled_store tp) of
        (Rejected e, s') \<Rightarrow> (Rejected e, s')
      | (Awaiting, s') \<Rightarrow> (Awaiting, s')
      | (Resolved pairing, s') \<Rightarrow>
          (case (case connect_metadata ps of
                   Some m \<Rightarrow> Some m
                 | None \<Rightarrow> client_metadata cl) of
             None \<Rightarrow> (Rejected (MISSING_OR_INVALID ''app metadata''), s')
           | Some metadata' \<Rightarrow>
               (session_create
                  \<lparr>create_signal = \<lparr>signal_method = SESSION_SIGNAL_METHOD_PAIRING,
                                    signal_params = settled_topic pairing\<rparr>,
                   create_relay = (case connect_relay ps of
                                     Some r \<Rightarrow> r
                                   | None \<Rightarrow> \<lparr>protocol = RELAYER_DEFAULT_PROTOCOL,
                                              params = None\<rparr>),
                   create_metadata = metadata',
                   create_permissions =
                     \<lparr>session_blockchain = connect_blockchain (connect_permissions ps),
                      session_jsonrpc = connect_jsonrpc (connect_permissions ps),
                      session_notifications =
                        session_notifications SESSION_EMPTY_PERMISSIONS\<rparr>\<rparr>,
                s')))"

section \<open>The store's representation invariant and sample values\<close>

text \<open>
  A \<open>Map\<close> holds each key once, and every write of the class stores an entry under its
  own topic.
\<close>

definition well_keyed :: "'seq Subscription \<Rightarrow> bool" where
  "well_keyed s =
     (distinct (map fst (subscriptions s)) \<and>
      list_all (\<lambda>(k, e). topic e = k) (subscriptions s))"

definition demo_relay :: ProtocolOptions where
  "demo_relay = \<lparr>protocol = ''waku'', params = None\<rparr>"

definition demo_empty :: "nat obj Subscription" where
  "demo_empty = new_Subscription [''pairing'', ''settled'']"

text \<open>The store after \<open>set\<close> of one entry that expires 3 seconds after time 0.\<close>

definition demo_store :: "nat obj Subscription" where
  "demo_store =
     snd (set_subscription 60 0 demo_empty ''t1'' [''a'' \<mapsto> 1]
            \<lparr>opts_relay = demo_relay, opts_expiry = Some 3000\<rparr>)"

text \<open>
  Three entries set at time 0, expiring at 8, 12 and 60 seconds: none is within a beat
  interval of its expiry, so none holds a timer.
\<close>

definition demo_beat :: "nat obj Subscription" where
  "demo_beat =
     snd (set_subscription 60 0
       (snd (set_subscription 60 0
          (snd (set_subscription 60 0 demo_empty ''t1'' [''a'' \<mapsto> 1]
                  \<lparr>opts_relay = demo_relay, opts_expiry = Some 8000\<rparr>))
          ''t2'' [''b'' \<mapsto> 2] \<lparr>opts_relay = demo_relay, opts_expiry = Some 12000\<rparr>))
       ''t3'' [''c'' \<mapsto> 3] \<lparr>opts_relay = demo_relay, opts_expiry = None\<rparr>)"


text \<open>
  The sample store after its timer has fired and the entry has expired, and \<open>t1\<close> has
  been set again at time 3500 to expire at time 5000.
\<close>

definition demo_stale :: "nat obj Subscription" where
  "demo_stale =
     snd (set_subscription 60 3500 (run_started (timer_fires demo_store ''t1'')) ''t1''
            [''a'' \<mapsto> 1] \<lparr>opts_relay = demo_relay, opts_expiry = Some 5000\<rparr>)"

text \<open>
  Sample collaborators of the relayer: a transport that answers every request, a keychain
  holding a key for \<open>t1\<close> only, and stand-ins for sealing, serialising and hex encoding.
  The sample relayer holds two subscription ids for \<open>t1\<close>.
\<close>

definition demo_collaborators :: "string Collaborators" where
  "demo_collaborators =
     \<lparr>provider_request = (\<lambda>_. Inr ''true''),
      hasKeys = (\<lambda>tp. tp = ''t1''),
      encrypt = (\<lambda>tp msg. Inr (''sealed:'' @ msg)),
      safeJsonStringify = (\<lambda>payload. payload),
      utf8ToHex = (\<lambda>msg. ''hex:'' @ msg),
      supported_protocols = [''waku'', ''bridge''],
      RELAYER_DEFAULT_PUBLISH_TTL = 21600\<rparr>"

definition demo_relayer :: Relayer where
  "demo_relayer =
     \<lparr>relayer_subscriptions = [(''t1'', [''a'', ''b''])],
      listeners = [(''a'', ''t1''), (''b'', ''t1'')],
      requests = [], relayer_logged = []\<rparr>"

text \<open>
  A settled pairing held by its store, an upgrade that repeats one of its methods, a
  client that is a controller, a URI parser that reads the controller flag off two sample
  URIs, a stand-in for the derivation of the settled topic, a session proposal from a
  controller, and the parameters of a \<open>connect\<close> call that names notification types.
\<close>

definition demo_pairing :: PairingSettled where
  "demo_pairing =
     \<lparr>settled_topic = ''t1'', settled_relay = demo_relay,
      self = \<lparr>publicKey = ''pkB'', participant_metadata = None\<rparr>,
      peer = \<lparr>publicKey = ''pkA'', participant_metadata = None\<rparr>,
      permissions = \<lparr>jsonrpc = \<lparr>methods = [''wc_sessionPropose'']\<rparr>,
                      notifications = \<lparr>types = []\<rparr>, controller = ''pkB''\<rparr>,
      settled_expiry = 2592000000, state = \<lparr>metadata = None\<rparr>\<rparr>"

definition demo_settled :: "PairingSettled Subscription" where
  "demo_settled =
     subscribeAndSet 2592000 0 (new_Subscription [''pairing'', ''settled'']) ''t1'' demo_pairing
       \<lparr>opts_relay = demo_relay, opts_expiry = None\<rparr>"

definition demo_upgrade :: ProposedPermissions where
  "demo_upgrade =
     \<lparr>proposed_jsonrpc = Some \<lparr>methods = [''wc_sessionPropose'', ''wc_sessionPing'']\<rparr>,
      proposed_notifications = None\<rparr>"

definition demo_parseUri :: "string \<Rightarrow> UriParams" where
  "demo_parseUri uri =
     \<lparr>uri_topic = ''t0'', uri_relay = demo_relay, uri_publicKey = ''pkA'',
      uri_controller = (uri = ''wc:t0@2?controller=1'')\<rparr>"

definition demo_derive :: "'perm Proposal \<Rightarrow> string" where
  "demo_derive p = ''settled:'' @ proposal_topic p"

definition demo_client :: Client where
  "demo_client =
     \<lparr>client_controller = True, client_metadata = None,
      pairing_engine = \<lparr>engine_pending = [], engine_settled = [], engine_replies = []\<rparr>,
      session_engine = \<lparr>engine_pending = [], engine_settled = [], engine_replies = []\<rparr>,
      session_proposals = []\<rparr>"

definition demo_session_proposal :: "SessionPermissions Proposal" where
  "demo_session_proposal =
     \<lparr>proposal_topic = ''t2'', proposal_relay = demo_relay,
      proposer = \<lparr>proposer_publicKey = ''pkC'', proposer_controller = True\<rparr>,
      signal = \<lparr>signal_method = ''pairing'', signal_params = ''t1''\<rparr>,
      proposal_permissions = SESSION_EMPTY_PERMISSIONS, ttl = 604800\<rparr>"

definition demo_connect :: ConnectParams where
  "demo_connect =
     \<lparr>connect_metadata =
        Some \<lparr>md_name = ''React App'', md_description = ''React App for WalletConnect'',
              md_url = ''https://walletconnect.org/'', md_icons = []\<rparr>,
      connect_relay = None,
      connect_permissions =
        \<lparr>connect_blockchain = \<lparr>chains = [''eip155:1'']\<rparr>,
         connect_jsonrpc = \<lparr>methods = [''eth_sendTransaction'', ''personal_sign'']\<rparr>,
         connect_notifications = Some \<lparr>types = [''accountsChanged'']\<rparr>\<rparr>,
      connect_pairing = Some ''t1''\<rparr>"

section \<open>Facts about the store\<close>


lemma update_keys_present: "map_of al k \<noteq> None \<Longrightarrow> map fst (AList.update k v al) = map fst al"
  by (induction al) (auto split: if_splits)

lemma list_all_update:
  "list_all P al \<Longrightarrow> P (k, v) \<Longrightarrow> list_all P (AList.update k v al)"
  by (induction al) auto

lemma setTimeout_fields:
  "subscriptions (setTimeout now s tp x) = subscriptions s"
  "cached (setTimeout now s tp x) = cached s"
  "emitted (setTimeout now s tp x) = emitted s"
  "logged (setTimeout now s tp x) = logged s"
  "nested_context (setTimeout now s tp x) = nested_context s"
  by (simp_all add: setTimeout_def onTimeout_def deleteTimeout_def Let_def split: option.splits)

lemma setTimeout_timeout:
  "timeout (setTimeout now s tp x) =
     (if timeout s tp = None \<and> 0 < x - now \<and> x - now \<le> CLIENT_BEAT_INTERVAL
      then (timeout s)(tp \<mapsto> \<lparr>delay = x - now, cleared = False\<rparr>) else timeout s)"
  by (auto simp add: setTimeout_def onTimeout_def deleteTimeout_def Let_def split: option.splits)

lemma setTimeout_started:
  "started (setTimeout now s tp x) =
     (if timeout s tp = None \<and> x \<le> now
      then started s @ [Delete_call tp (EXPIRED (getSubscriptionContext s))] else started s)"
  by (auto simp add: setTimeout_def onTimeout_def deleteTimeout_def Let_def
      getSubscriptionContext_def split: option.splits)

lemma demo_store_eq:
  "demo_store =
     \<lparr>subscriptions =
        [(''t1'', \<lparr>topic = ''t1'', sequence = [''a'' \<mapsto> 1], relay = demo_relay, expiry = 3000\<rparr>)],
      timeout = [''t1'' \<mapsto> \<lparr>delay = 3000, cleared = False\<rparr>], cached = [],
      nested_context = [''pairing'', ''settled''],
      emitted = [Created ''pairing/settled'' ''t1'' [''a'' \<mapsto> 1]], logged = [], started = []\<rparr>"
  by (simp add: demo_store_def demo_empty_def set_subscription_def new_Subscription_def
      isEnabled_def subscribeAndSet_def setTimeout_def Let_def CLIENT_BEAT_INTERVAL_def
      FIVE_SECONDS_def emit_def getSubscriptionEventTag_def)

section \<open>Claims about the store\<close>

text \<open>
  C10. On an enabled store that holds \<open>topic\<close>, \<open>update(topic, partial)\<close> resolves and
  replaces the entry by itself with only \<open>sequence\<close> changed, to the shallow merge of the
  old sequence with \<open>partial\<close>: topic, relay and expiry stay, no other entry and no key
  changes, the store stays keyed by topic, the timers and the started calls are untouched,
  and one \<open>updated\<close> event is emitted.
\<close>

theorem update_changes_only_sequence:
  assumes "isEnabled s" and "well_keyed s" and "map_of (subscriptions s) tp = Some sub"
  shows "fst (update s tp upd) = Resolved () \<and>
     map_of (subscriptions (snd (update s tp upd))) =
       (map_of (subscriptions s))(tp \<mapsto> sub\<lparr>sequence := sequence sub ++ upd\<rparr>) \<and>
     map fst (subscriptions (snd (update s tp upd))) = map fst (subscriptions s) \<and>
     well_keyed (snd (update s tp upd)) \<and>
     timeout (snd (update s tp upd)) = timeout s \<and>
     started (snd (update s tp upd)) = started s \<and>
     cached (snd (update s tp upd)) = cached s \<and>
     emitted (snd (update s tp upd)) =
       emitted s @ [Updated (getSubscriptionEventTag s) tp (sequence sub ++ upd) upd]"
proof -
  have mem: "(tp, sub) \<in> set (subscriptions s)"
    using assms(3) by (rule map_of_SomeD)
  have key: "topic sub = tp"
    using assms(2) mem by (auto simp: well_keyed_def list_all_iff)
  have same: "sub\<lparr>topic := tp, sequence := sequence sub ++ upd\<rparr> =
              sub\<lparr>sequence := sequence sub ++ upd\<rparr>"
    using key by simp
  have run: "update s tp upd =
      (Resolved (),
       emit (Updated (getSubscriptionEventTag s) tp (sequence sub ++ upd) upd)
         (s\<lparr>subscriptions :=
              AList.update tp (sub\<lparr>sequence := sequence sub ++ upd\<rparr>) (subscriptions s)\<rparr>))"
    using assms(1,3) same
    by (simp add: update_def getSubscription_def Let_def spread_def getSubscriptionEventTag_def)
  have all: "list_all (\<lambda>(k, e). topic e = k)
               (AList.update tp (sub\<lparr>sequence := sequence sub ++ upd\<rparr>) (subscriptions s))"
    using assms(2) key
    by (intro list_all_update) (simp_all add: well_keyed_def)
  have wk: "well_keyed (snd (update s tp upd))"
    using assms(2) all by (simp add: run emit_def well_keyed_def distinct_update)
  show ?thesis
    using assms(3) wk
    by (simp add: run emit_def update_conv' update_keys_present)
qed

theorem update_changes_only_sequence_witness:
  "isEnabled demo_store \<and> well_keyed demo_store \<and>
   map_of (subscriptions demo_store) ''t1'' =
     Some \<lparr>topic = ''t1'', sequence = [''a'' \<mapsto> 1], relay = demo_relay, expiry = 3000\<rparr> \<and>
   fst (update demo_store ''t1'' [''b'' \<mapsto> 2]) = Resolved () \<and>
   map_of (subscriptions (snd (update demo_store ''t1'' [''b'' \<mapsto> 2]))) ''t1'' =
     Some \<lparr>topic = ''t1'', sequence = [''a'' \<mapsto> 1, ''b'' \<mapsto> 2], relay = demo_relay,
           expiry = 3000\<rparr> \<and>
   timeout (snd (update demo_store ''t1'' [''b'' \<mapsto> 2])) = timeout demo_store"
  using update_changes_only_sequence [of demo_store "''t1''"
      "\<lparr>topic = ''t1'', sequence = [''a'' \<mapsto> 1], relay = demo_relay, expiry = 3000\<rparr>"
      "[''b'' \<mapsto> 2]"]
  by (simp add: demo_store_eq isEnabled_def well_keyed_def)

text \<open>
  C3, evaluated. The store holds \<open>t1\<close> with a live timer. \<open>delete\<close> resolves, removes
  the entry and emits \<open>deleted\<close> with the reason given, and for the absent topic \<open>t2\<close> it
  rejects with \<open>NO_MATCHING_TOPIC\<close>; but the timer of \<open>t1\<close> is still armed afterwards, and
  when it fires, the \<open>delete\<close> it starts finds no entry and rejects with
  \<open>NO_MATCHING_TOPIC\<close>.
\<close>

theorem delete_leaves_timer_armed:
  "fst (delete demo_store ''t1'' (EXTERNAL ''done'')) = Resolved () \<and>
   subscriptions (snd (delete demo_store ''t1'' (EXTERNAL ''done''))) = [] \<and>
   emitted (snd (delete demo_store ''t1'' (EXTERNAL ''done''))) =
     emitted demo_store @ [Deleted ''pairing/settled'' ''t1'' [''a'' \<mapsto> 1] (EXTERNAL ''done'')] \<and>
   fst (delete demo_store ''t2'' (EXTERNAL ''done'')) =
     Rejected (NO_MATCHING_TOPIC ''pairing settled'' ''t2'') \<and>
   timeout demo_store ''t1'' = Some \<lparr>delay = 3000, cleared = False\<rparr> \<and>
   timeout (snd (delete demo_store ''t1'' (EXTERNAL ''done''))) ''t1'' =
     Some \<lparr>delay = 3000, cleared = False\<rparr> \<and>
   logged (run_started (timer_fires (snd (delete demo_store ''t1'' (EXTERNAL ''done''))) ''t1'')) =
     [NO_MATCHING_TOPIC ''pairing settled'' ''t1'']"
  by (simp add: demo_store_eq delete_def getSubscription_def isEnabled_def emit_def Let_def
      timer_fires_def onTimeout_def deleteTimeout_def run_started_def
      getSubscriptionContext_def getSubscriptionEventTag_def logger_error_def)






lemma demo_empty_eq:
  "demo_empty =
     \<lparr>subscriptions = [], timeout = Map.empty, cached = [],
      nested_context = [''pairing'', ''settled''], emitted = [], logged = [], started = []\<rparr>"
  by (simp add: demo_empty_def new_Subscription_def)




lemma walk_fields:
  "subscriptions (fold (\<lambda>e s'. setTimeout now s' (topic e) (expiry e)) es s) = subscriptions s"
  "cached (fold (\<lambda>e s'. setTimeout now s' (topic e) (expiry e)) es s) = cached s"
  "emitted (fold (\<lambda>e s'. setTimeout now s' (topic e) (expiry e)) es s) = emitted s"
  "logged (fold (\<lambda>e s'. setTimeout now s' (topic e) (expiry e)) es s) = logged s"
  "nested_context (fold (\<lambda>e s'. setTimeout now s' (topic e) (expiry e)) es s) = nested_context s"
  by (induction es arbitrary: s) (simp_all add: setTimeout_fields)

lemma walk_timeout:
  "distinct (map topic es) \<Longrightarrow>
   timeout (fold (\<lambda>e s'. setTimeout now s' (topic e) (expiry e)) es s) k =
     (case timeout s k of
        Some t \<Rightarrow> Some t
      | None \<Rightarrow> (case find (\<lambda>e. topic e = k) es of
                   None \<Rightarrow> None
                 | Some e \<Rightarrow> if 0 < expiry e - now \<and> expiry e - now \<le> CLIENT_BEAT_INTERVAL
                             then Some \<lparr>delay = expiry e - now, cleared = False\<rparr> else None))"
proof (induction es arbitrary: s)
  case Nil
  then show ?case by (simp split: option.splits)
next
  case (Cons e es)
  have ne: "\<forall>x \<in> set es. topic x \<noteq> topic e"
    using Cons.prems by (auto simp: image_def)
  have nf: "find (\<lambda>x. topic x = topic e) es = None"
    using ne by (simp add: find_None_iff)
  show ?case
    using Cons.prems Cons.IH[of "setTimeout now s (topic e) (expiry e)"] nf
    by (auto simp: setTimeout_timeout split: option.splits)
qed

lemma walk_started:
  "distinct (map topic es) \<Longrightarrow>
   started (fold (\<lambda>e s'. setTimeout now s' (topic e) (expiry e)) es s) =
     started s @ map (\<lambda>e. Delete_call (topic e) (EXPIRED (getSubscriptionContext s)))
                   (filter (\<lambda>e. timeout s (topic e) = None \<and> expiry e \<le> now) es)"
proof (induction es arbitrary: s)
  case Nil
  then show ?case by simp
next
  case (Cons e es)
  let ?s1 = "setTimeout now s (topic e) (expiry e)"
  have ctx: "getSubscriptionContext ?s1 = getSubscriptionContext s"
    by (simp add: getSubscriptionContext_def setTimeout_fields)
  have ne: "\<forall>x \<in> set es. topic x \<noteq> topic e"
    using Cons.prems by (auto simp: image_def)
  have same: "\<forall>x \<in> set es. timeout ?s1 (topic x) = timeout s (topic x)"
    using ne by (simp add: setTimeout_timeout)
  have filt: "filter (\<lambda>x. timeout ?s1 (topic x) = None \<and> expiry x \<le> now) es =
              filter (\<lambda>x. timeout s (topic x) = None \<and> expiry x \<le> now) es"
    using same by (intro filter_cong) auto
  show ?case
    using Cons.prems Cons.IH[of ?s1]
    by (simp add: ctx filt setTimeout_started)
qed

lemma find_topic_map_of:
  "list_all (\<lambda>(k, e). topic e = k) al \<Longrightarrow> find (\<lambda>e. topic e = k) (map snd al) = map_of al k"
  by (induction al) auto

lemma well_keyed_topics:
  "well_keyed s \<Longrightarrow> map topic (values_of s) = map fst (subscriptions s)"
  by (auto simp: well_keyed_def values_of_def list_all_iff)

lemma well_keyed_lookup:
  assumes "well_keyed s" and "e \<in> set (values_of s)"
  shows "map_of (subscriptions s) (topic e) = Some e"
proof -
  obtain k where mem: "(k, e) \<in> set (subscriptions s)"
    using assms(2) by (auto simp: values_of_def)
  then have "topic e = k"
    using assms(1) by (auto simp: well_keyed_def list_all_iff)
  then show ?thesis
    using assms(1) mem by (simp add: well_keyed_def)
qed

lemma delete_present:
  "isEnabled s \<Longrightarrow> map_of (subscriptions s) tp = Some e \<Longrightarrow>
   delete s tp r =
     (Resolved (),
      s\<lparr>subscriptions := AList.delete tp (subscriptions s),
        emitted := emitted s @ [Deleted (getSubscriptionEventTag s) tp (sequence e) r]\<rparr>)"
  by (simp add: delete_def getSubscription_def Let_def emit_def getSubscriptionEventTag_def)

lemma run_deletes:
  assumes "isEnabled s0" and "distinct (map topic es)"
    and "\<forall>e \<in> set es. map_of (subscriptions s0) (topic e) = Some e"
  shows "fold (\<lambda>c s'. case run_call c s' of
                         (Awaiting, s'') \<Rightarrow> s''\<lparr>started := started s'' @ [c]\<rparr>
                       | (_, s'') \<Rightarrow> s'')
           (map (\<lambda>e. Delete_call (topic e) r) es) s0 =
         s0\<lparr>subscriptions := filter (\<lambda>(k, _). k \<notin> topic ` set es) (subscriptions s0),
            emitted := emitted s0 @
              map (\<lambda>e. Deleted (getSubscriptionEventTag s0) (topic e) (sequence e) r) es\<rparr>"
  using assms
proof (induction es arbitrary: s0)
  case Nil
  then show ?case by simp
next
  case (Cons e es)
  let ?s1 = "s0\<lparr>subscriptions := AList.delete (topic e) (subscriptions s0),
               emitted := emitted s0 @ [Deleted (getSubscriptionEventTag s0) (topic e) (sequence e) r]\<rparr>"
  have del: "delete s0 (topic e) r = (Resolved (), ?s1)"
    using Cons.prems(1,3) by (simp add: delete_present)
  have ne: "\<forall>x \<in> set es. topic x \<noteq> topic e"
    using Cons.prems(2) by (auto simp: image_def)
  have en: "isEnabled ?s1"
    using Cons.prems(1) by (simp add: isEnabled_def)
  have look: "\<forall>x \<in> set es. map_of (subscriptions ?s1) (topic x) = Some x"
    using Cons.prems(3) ne by (simp add: delete_conv')
  have dist: "distinct (map topic es)"
    using Cons.prems(2) by simp
  have tag: "getSubscriptionEventTag ?s1 = getSubscriptionEventTag s0"
    by (simp add: getSubscriptionEventTag_def)
  have filt: "filter (\<lambda>(k, _). k \<notin> topic ` set es) (AList.delete (topic e) (subscriptions s0)) =
              filter (\<lambda>(k, _). k \<notin> topic ` set (e # es)) (subscriptions s0)"
    by (auto simp: AList.delete_eq intro: filter_cong)
  show ?case
    using Cons.IH[OF en dist look] filt
    by (simp add: del tag)
qed


lemma demo_beat_eq:
  "demo_beat =
     \<lparr>subscriptions =
        [(''t1'', \<lparr>topic = ''t1'', sequence = [''a'' \<mapsto> 1], relay = demo_relay, expiry = 8000\<rparr>),
         (''t2'', \<lparr>topic = ''t2'', sequence = [''b'' \<mapsto> 2], relay = demo_relay, expiry = 12000\<rparr>),
         (''t3'', \<lparr>topic = ''t3'', sequence = [''c'' \<mapsto> 3], relay = demo_relay, expiry = 60000\<rparr>)],
      timeout = Map.empty, cached = [],
      nested_context = [''pairing'', ''settled''],
      emitted = [Created ''pairing/settled'' ''t1'' [''a'' \<mapsto> 1],
                 Created ''pairing/settled'' ''t2'' [''b'' \<mapsto> 2],
                 Created ''pairing/settled'' ''t3'' [''c'' \<mapsto> 3]],
      logged = [], started = []\<rparr>"
  by (simp add: demo_beat_def demo_empty_eq set_subscription_def
      isEnabled_def subscribeAndSet_def setTimeout_def Let_def CLIENT_BEAT_INTERVAL_def
      FIVE_SECONDS_def emit_def getSubscriptionEventTag_def)

text \<open>
  The beat walk in general. The beat interval is 5000 ms. On an enabled store keyed by
  topic with no call pending, \<open>checkSubscriptions\<close> leaves the entries as they are and
  decides every topic's timer: a topic that holds a timer handle, live or not, keeps it
  and is passed over; a topic without one
  gets a timer, with the remaining TTL as its delay, exactly when its entry's remaining
  TTL is positive and at most the beat interval. For exactly the entries without a timer
  handle whose remaining TTL is not positive, \<open>delete\<close> with \<open>EXPIRED\<close> is started at once,
  and when those calls have run these entries are gone, each with a \<open>deleted\<close> event
  carrying \<open>EXPIRED\<close>. When a live timer of a held topic fires, the entry is deleted with
  a \<open>deleted\<close> event carrying \<open>EXPIRED\<close>.
\<close>

theorem beat_arms_due_timers:
  assumes "isEnabled s" and "well_keyed s" and "started s = []"
  shows
    "CLIENT_BEAT_INTERVAL = 5000 \<and>
     subscriptions (checkSubscriptions now s) = subscriptions s \<and>
     (\<forall>k. timeout (checkSubscriptions now s) k =
        (case timeout s k of
           Some t \<Rightarrow> Some t
         | None \<Rightarrow>
             (case map_of (subscriptions s) k of
                None \<Rightarrow> None
              | Some e \<Rightarrow>
                  if 0 < expiry e - now \<and> expiry e - now \<le> CLIENT_BEAT_INTERVAL
                  then Some \<lparr>delay = expiry e - now, cleared = False\<rparr> else None))) \<and>
     started (checkSubscriptions now s) =
       map (\<lambda>e. Delete_call (topic e) (EXPIRED (getSubscriptionContext s)))
         (filter (\<lambda>e. timeout s (topic e) = None \<and> expiry e - now \<le> 0) (values_of s)) \<and>
     subscriptions (run_started (checkSubscriptions now s)) =
       filter (\<lambda>(k, e). \<not> (timeout s k = None \<and> expiry e - now \<le> 0)) (subscriptions s) \<and>
     emitted (run_started (checkSubscriptions now s)) =
       emitted s @
         map (\<lambda>e. Deleted (getSubscriptionEventTag s) (topic e) (sequence e)
                    (EXPIRED (getSubscriptionContext s)))
           (filter (\<lambda>e. timeout s (topic e) = None \<and> expiry e - now \<le> 0) (values_of s)) \<and>
     (\<forall>tp t e. timeout s tp = Some t \<and> \<not> cleared t \<and> map_of (subscriptions s) tp = Some e \<longrightarrow>
        subscriptions (run_started (timer_fires s tp)) = AList.delete tp (subscriptions s) \<and>
        emitted (run_started (timer_fires s tp)) =
          emitted s @ [Deleted (getSubscriptionEventTag s) tp (sequence e)
                         (EXPIRED (getSubscriptionContext s))])"
proof -
  let ?Q = "\<lambda>e. timeout s (topic e) = None \<and> expiry e \<le> now"
  let ?c = "checkSubscriptions now s"
  let ?R = "EXPIRED (getSubscriptionContext s)"
  have dist: "distinct (map topic (values_of s))"
    using assms(2) by (simp add: well_keyed_topics) (simp add: well_keyed_def)
  have keyed: "list_all (\<lambda>(k, e). topic e = k) (subscriptions s)"
    using assms(2) by (simp add: well_keyed_def)
  have found: "\<And>k. find (\<lambda>e. topic e = k) (values_of s) = map_of (subscriptions s) k"
    using find_topic_map_of[OF keyed] by (simp add: values_of_def)
  have subs: "subscriptions ?c = subscriptions s"
    by (simp add: checkSubscriptions_def walk_fields)
  have tmo: "\<forall>k. timeout ?c k =
        (case timeout s k of
           Some t \<Rightarrow> Some t
         | None \<Rightarrow>
             (case map_of (subscriptions s) k of
                None \<Rightarrow> None
              | Some e \<Rightarrow>
                  if 0 < expiry e - now \<and> expiry e - now \<le> CLIENT_BEAT_INTERVAL
                  then Some \<lparr>delay = expiry e - now, cleared = False\<rparr> else None))"
    using walk_timeout[OF dist, of now s]
    by (simp add: checkSubscriptions_def found cong: option.case_cong)
  have st: "started ?c = map (\<lambda>e. Delete_call (topic e) ?R) (filter ?Q (values_of s))"
    using walk_started[OF dist, of now s] assms(3)
    by (simp add: checkSubscriptions_def)
  let ?s0 = "?c\<lparr>started := []\<rparr>"
  have en0: "isEnabled ?s0"
    using assms(1) by (simp add: isEnabled_def checkSubscriptions_def walk_fields)
  have distQ: "distinct (map topic (filter ?Q (values_of s)))"
    using dist by (rule distinct_map_filter)
  have look: "\<forall>e \<in> set (filter ?Q (values_of s)). map_of (subscriptions ?s0) (topic e) = Some e"
    using well_keyed_lookup[OF assms(2)] by (simp add: subs)
  have em0: "emitted ?c = emitted s"
    by (simp add: checkSubscriptions_def walk_fields)
  have tag0: "getSubscriptionEventTag ?s0 = getSubscriptionEventTag s"
    by (simp add: getSubscriptionEventTag_def checkSubscriptions_def walk_fields)
  have run: "run_started ?c =
      ?s0\<lparr>subscriptions :=
            filter (\<lambda>(k, _). k \<notin> topic ` set (filter ?Q (values_of s))) (subscriptions s),
          emitted := emitted s @
            map (\<lambda>e. Deleted (getSubscriptionEventTag s) (topic e) (sequence e) ?R)
              (filter ?Q (values_of s))\<rparr>"
  proof -
    have "run_started ?c =
        fold (\<lambda>c s'. case run_call c s' of
                         (Awaiting, s'') \<Rightarrow> s''\<lparr>started := started s'' @ [c]\<rparr>
                       | (_, s'') \<Rightarrow> s'')
          (map (\<lambda>e. Delete_call (topic e) ?R) (filter ?Q (values_of s))) ?s0"
      by (simp only: run_started_def st)
    also have "\<dots> =
        ?s0\<lparr>subscriptions :=
              filter (\<lambda>(k, _). k \<notin> topic ` set (filter ?Q (values_of s))) (subscriptions ?s0),
            emitted := emitted ?s0 @
              map (\<lambda>e. Deleted (getSubscriptionEventTag ?s0) (topic e) (sequence e) ?R)
                (filter ?Q (values_of s))\<rparr>"
      by (rule run_deletes[OF en0 distQ look])
    also have "\<dots> =
        ?s0\<lparr>subscriptions :=
              filter (\<lambda>(k, _). k \<notin> topic ` set (filter ?Q (values_of s))) (subscriptions s),
            emitted := emitted s @
              map (\<lambda>e. Deleted (getSubscriptionEventTag s) (topic e) (sequence e) ?R)
                (filter ?Q (values_of s))\<rparr>"
      by (simp only: tag0) (simp add: subs em0)
    finally show ?thesis .
  qed
  have member: "\<And>k e. (k, e) \<in> set (subscriptions s) \<Longrightarrow>
      (k \<in> topic ` set (filter ?Q (values_of s))) = (timeout s k = None \<and> expiry e \<le> now)"
  proof -
    fix k e assume mem: "(k, e) \<in> set (subscriptions s)"
    have ke: "topic e = k"
      using keyed mem by (auto simp: list_all_iff)
    have ev: "e \<in> set (values_of s)"
      using mem by (force simp: values_of_def)
    have uniq: "\<And>e'. e' \<in> set (values_of s) \<Longrightarrow> topic e' = k \<Longrightarrow> e' = e"
    proof -
      fix e' assume "e' \<in> set (values_of s)" and "topic e' = k"
      then have "map_of (subscriptions s) k = Some e'"
        using well_keyed_lookup[OF assms(2)] by auto
      moreover have "map_of (subscriptions s) k = Some e"
        using well_keyed_lookup[OF assms(2) ev] ke by simp
      ultimately show "e' = e" by simp
    qed
    show "(k \<in> topic ` set (filter ?Q (values_of s))) = (timeout s k = None \<and> expiry e \<le> now)"
    proof
      assume "k \<in> topic ` set (filter ?Q (values_of s))"
      then obtain e' where e': "e' \<in> set (values_of s)" "?Q e'" "topic e' = k"
        by auto
      then have "e' = e"
        using uniq by blast
      then show "timeout s k = None \<and> expiry e \<le> now"
        using e' by simp
    next
      assume "timeout s k = None \<and> expiry e \<le> now"
      then have "e \<in> set (filter ?Q (values_of s))"
        using ev ke by simp
      then have "topic e \<in> topic ` set (filter ?Q (values_of s))"
        by (rule imageI)
      then show "k \<in> topic ` set (filter ?Q (values_of s))"
        using ke by simp
    qed
  qed
  have filt: "filter (\<lambda>(k, _). k \<notin> topic ` set (filter ?Q (values_of s))) (subscriptions s) =
              filter (\<lambda>(k, e). \<not> (timeout s k = None \<and> expiry e \<le> now)) (subscriptions s)"
    using member by (intro filter_cong) auto
  have fire: "\<forall>tp t e. timeout s tp = Some t \<and> \<not> cleared t \<and> map_of (subscriptions s) tp = Some e \<longrightarrow>
        subscriptions (run_started (timer_fires s tp)) = AList.delete tp (subscriptions s) \<and>
        emitted (run_started (timer_fires s tp)) =
          emitted s @ [Deleted (getSubscriptionEventTag s) tp (sequence e) ?R]"
  proof (intro allI impI)
    fix tp t e
    assume h: "timeout s tp = Some t \<and> \<not> cleared t \<and> map_of (subscriptions s) tp = Some e"
    let ?s1 = "s\<lparr>timeout := (timeout s)(tp \<mapsto> t\<lparr>cleared := True\<rparr>)\<rparr>"
    have tf: "timer_fires s tp = ?s1\<lparr>started := [Delete_call tp ?R]\<rparr>"
      using h assms(3)
      by (simp add: timer_fires_def onTimeout_def deleteTimeout_def Let_def
          getSubscriptionContext_def)
    have en1: "isEnabled (?s1\<lparr>started := []\<rparr>)"
      using assms(1) by (simp add: isEnabled_def)
    have d: "delete (?s1\<lparr>started := []\<rparr>) tp ?R =
        (Resolved (),
         ?s1\<lparr>started := [], subscriptions := AList.delete tp (subscriptions s),
             emitted := emitted s @ [Deleted (getSubscriptionEventTag s) tp (sequence e) ?R]\<rparr>)"
      using h delete_present[OF en1, of tp e ?R]
      by (simp add: getSubscriptionEventTag_def)
    show "subscriptions (run_started (timer_fires s tp)) = AList.delete tp (subscriptions s) \<and>
        emitted (run_started (timer_fires s tp)) =
          emitted s @ [Deleted (getSubscriptionEventTag s) tp (sequence e) ?R]"
      by (simp add: tf run_started_def d)
  qed
  have beat: "CLIENT_BEAT_INTERVAL = 5000"
    by (simp add: CLIENT_BEAT_INTERVAL_def FIVE_SECONDS_def)
  have st': "started ?c =
       map (\<lambda>e. Delete_call (topic e) ?R)
         (filter (\<lambda>e. timeout s (topic e) = None \<and> expiry e - now \<le> 0) (values_of s))"
    using st by simp
  have rs: "subscriptions (run_started ?c) =
       filter (\<lambda>(k, e). \<not> (timeout s k = None \<and> expiry e - now \<le> 0)) (subscriptions s)"
    using filt by (simp add: run)
  have re: "emitted (run_started ?c) =
       emitted s @
         map (\<lambda>e. Deleted (getSubscriptionEventTag s) (topic e) (sequence e) ?R)
           (filter (\<lambda>e. timeout s (topic e) = None \<and> expiry e - now \<le> 0) (values_of s))"
    by (simp add: run)
  show ?thesis
    using beat subs tmo st' rs re fire by blast
qed


theorem beat_arms_due_timers_witness:
  "isEnabled demo_beat \<and> well_keyed demo_beat \<and> started demo_beat = [] \<and>
   timeout demo_beat = Map.empty \<and>
   map (\<lambda>e. (topic e, expiry e - 9000)) (values_of demo_beat) =
     [(''t1'', - 1000), (''t2'', 3000), (''t3'', 51000)] \<and>
   timeout (checkSubscriptions 9000 demo_beat) ''t1'' = None \<and>
   timeout (checkSubscriptions 9000 demo_beat) ''t2'' = Some \<lparr>delay = 3000, cleared = False\<rparr> \<and>
   timeout (checkSubscriptions 9000 demo_beat) ''t3'' = None \<and>
   map fst (subscriptions (run_started (checkSubscriptions 9000 demo_beat))) = [''t2'', ''t3''] \<and>
   emitted (run_started (checkSubscriptions 9000 demo_beat)) =
     emitted demo_beat @
       [Deleted ''pairing/settled'' ''t1'' [''a'' \<mapsto> 1] (EXPIRED ''pairing settled'')] \<and>
   isEnabled demo_store \<and> well_keyed demo_store \<and> started demo_store = [] \<and>
   timeout demo_store ''t1'' = Some \<lparr>delay = 3000, cleared = False\<rparr> \<and>
   subscriptions (run_started (timer_fires demo_store ''t1'')) = [] \<and>
   emitted (run_started (timer_fires demo_store ''t1'')) =
     emitted demo_store @
       [Deleted ''pairing/settled'' ''t1'' [''a'' \<mapsto> 1] (EXPIRED ''pairing settled'')]"
proof -
  have en: "isEnabled demo_beat" and wk: "well_keyed demo_beat" and nil: "started demo_beat = []"
    and tm: "timeout demo_beat = Map.empty"
    and vs: "map (\<lambda>e. (topic e, expiry e - 9000)) (values_of demo_beat) =
               [(''t1'', - 1000), (''t2'', 3000), (''t3'', 51000)]"
    by (simp_all add: demo_beat_eq isEnabled_def well_keyed_def values_of_def)
  have en': "isEnabled demo_store" and wk': "well_keyed demo_store"
    and nil': "started demo_store = []"
    and tm': "timeout demo_store ''t1'' = Some \<lparr>delay = 3000, cleared = False\<rparr>"
    and look': "map_of (subscriptions demo_store) ''t1'' =
        Some \<lparr>topic = ''t1'', sequence = [''a'' \<mapsto> 1], relay = demo_relay, expiry = 3000\<rparr>"
    by (simp_all add: demo_store_eq isEnabled_def well_keyed_def)
  note a = beat_arms_due_timers [OF en wk nil, of 9000]
  note b = beat_arms_due_timers [OF en' wk' nil', of 0]
  have t1: "timeout (checkSubscriptions 9000 demo_beat) ''t1'' = None"
    and t2: "timeout (checkSubscriptions 9000 demo_beat) ''t2'' =
               Some \<lparr>delay = 3000, cleared = False\<rparr>"
    and t3: "timeout (checkSubscriptions 9000 demo_beat) ''t3'' = None"
    using a by (simp_all add: demo_beat_eq)
  have s1: "map fst (subscriptions (run_started (checkSubscriptions 9000 demo_beat))) =
              [''t2'', ''t3'']"
    using a by (simp add: demo_beat_eq)
  have e1: "emitted (run_started (checkSubscriptions 9000 demo_beat)) =
     emitted demo_beat @
       [Deleted ''pairing/settled'' ''t1'' [''a'' \<mapsto> 1] (EXPIRED ''pairing settled'')]"
    using a
    by (simp add: demo_beat_eq values_of_def getSubscriptionEventTag_def
        getSubscriptionContext_def)
  from b
  have fire: "\<forall>tp t e. timeout demo_store tp = Some t \<and> \<not> cleared t \<and>
                map_of (subscriptions demo_store) tp = Some e \<longrightarrow>
        subscriptions (run_started (timer_fires demo_store tp)) =
          AList.delete tp (subscriptions demo_store) \<and>
        emitted (run_started (timer_fires demo_store tp)) =
          emitted demo_store @ [Deleted (getSubscriptionEventTag demo_store) tp (sequence e)
                         (EXPIRED (getSubscriptionContext demo_store))]"
    by blast
  from fire [rule_format, of "''t1''" "\<lparr>delay = 3000, cleared = False\<rparr>"
      "\<lparr>topic = ''t1'', sequence = [''a'' \<mapsto> 1], relay = demo_relay, expiry = 3000\<rparr>"]
    tm' look'
  have f: "subscriptions (run_started (timer_fires demo_store ''t1'')) =
             AList.delete ''t1'' (subscriptions demo_store) \<and>
           emitted (run_started (timer_fires demo_store ''t1'')) =
             emitted demo_store @
               [Deleted (getSubscriptionEventTag demo_store) ''t1''
                  (sequence \<lparr>topic = ''t1'', sequence = [''a'' \<mapsto> 1], relay = demo_relay,
                              expiry = 3000\<rparr>)
                  (EXPIRED (getSubscriptionContext demo_store))]"
    by simp
  have f1: "subscriptions (run_started (timer_fires demo_store ''t1'')) = []"
    using f by (simp add: demo_store_eq)
  have f2: "emitted (run_started (timer_fires demo_store ''t1'')) =
     emitted demo_store @
       [Deleted ''pairing/settled'' ''t1'' [''a'' \<mapsto> 1] (EXPIRED ''pairing settled'')]"
    using f
    by (simp add: demo_store_eq getSubscriptionEventTag_def getSubscriptionContext_def)
  show ?thesis
    using en wk nil tm vs t1 t2 t3 s1 e1 en' wk' nil' tm' f1 f2 by blast
qed

lemma demo_stale_eq:
  "demo_stale =
     \<lparr>subscriptions =
        [(''t1'', \<lparr>topic = ''t1'', sequence = [''a'' \<mapsto> 1], relay = demo_relay, expiry = 5000\<rparr>)],
      timeout = [''t1'' \<mapsto> \<lparr>delay = 3000, cleared = True\<rparr>], cached = [],
      nested_context = [''pairing'', ''settled''],
      emitted = [Created ''pairing/settled'' ''t1'' [''a'' \<mapsto> 1],
                 Deleted ''pairing/settled'' ''t1'' [''a'' \<mapsto> 1] (EXPIRED ''pairing settled''),
                 Created ''pairing/settled'' ''t1'' [''a'' \<mapsto> 1]],
      logged = [], started = []\<rparr>"
  by (simp add: demo_stale_def demo_store_eq timer_fires_def onTimeout_def deleteTimeout_def
      run_started_def delete_def getSubscription_def set_subscription_def
      isEnabled_def subscribeAndSet_def setTimeout_def Let_def emit_def
      getSubscriptionEventTag_def getSubscriptionContext_def)

text \<open>
  C7, evaluated. \<open>t1\<close> was set, its timer fired and the entry expired; the handle, cleared,
  is still in the \<open>timeout\<close> map. \<open>t1\<close> is set again to expire at time 5000. No timer is
  armed for it, yet the beat at time 4000, with 1000 ms left, arms none, and the beat at
  time 6000, past the expiry, starts no \<open>delete\<close>: the entry stays and no \<open>deleted\<close> event
  is emitted.
\<close>

theorem beat_skips_stale_handle:
  "isEnabled demo_stale \<and> well_keyed demo_stale \<and> started demo_stale = [] \<and>
   map (\<lambda>e. (topic e, expiry e)) (values_of demo_stale) = [(''t1'', 5000)] \<and>
   timeout demo_stale ''t1'' = Some \<lparr>delay = 3000, cleared = True\<rparr> \<and>
   timeout (checkSubscriptions 4000 demo_stale) ''t1'' = Some \<lparr>delay = 3000, cleared = True\<rparr> \<and>
   started (checkSubscriptions 4000 demo_stale) = [] \<and>
   timer_fires (checkSubscriptions 4000 demo_stale) ''t1'' = checkSubscriptions 4000 demo_stale \<and>
   timeout (checkSubscriptions 6000 demo_stale) ''t1'' = Some \<lparr>delay = 3000, cleared = True\<rparr> \<and>
   started (checkSubscriptions 6000 demo_stale) = [] \<and>
   subscriptions (run_started (checkSubscriptions 6000 demo_stale)) =
     [(''t1'', \<lparr>topic = ''t1'', sequence = [''a'' \<mapsto> 1], relay = demo_relay, expiry = 5000\<rparr>)] \<and>
   emitted (run_started (checkSubscriptions 6000 demo_stale)) = emitted demo_stale"
  by (simp add: demo_stale_eq isEnabled_def well_keyed_def values_of_def checkSubscriptions_def
      setTimeout_def timer_fires_def run_started_def)

text \<open>
  C9 as stated fails: for a missing and for an empty persisted item the \<open>try\<close> block of
  \<open>restore\<close> resolves, so nothing is raised or caught, and \<open>init\<close> leaves the store as it
  was, its empty log included: nothing is logged.
\<close>

theorem restore_early_return_logs_nothing_counterexample:
  "restore_try (Inr None) 60 0 demo_store = (Resolved (), demo_store) \<and>
   init (Inr None) 60 0 demo_store = (Resolved (), demo_store) \<and>
   restore_try (Inr (Some [])) 60 0 demo_store = (Resolved (), demo_store) \<and>
   init (Inr (Some [])) 60 0 demo_store = (Resolved (), demo_store) \<and>
   logged demo_store = []"
  by (simp add: init_def restore_def restore_try_def demo_store_eq)

text \<open>
  C9, amended. \<open>init\<close> always resolves. A failing storage read and \<open>RESTORE_WILL_OVERRIDE\<close> (a
  non-empty persisted array met by a non-empty map) reject the \<open>try\<close> block, are caught
  and logged, and leave entries, timers, \<open>cached\<close> and the emitted events as they were,
  so no \<open>enabled\<close> event is emitted; a missing or empty persisted item is no error: \<open>restore\<close>
  returns early, nothing is raised or logged, and the whole store is unchanged.
\<close>

theorem init_never_rejects:
  "fst (init storage_read d now s) = Resolved () \<and>
   (storage_read = Inl e \<longrightarrow>
      fst (restore_try storage_read d now s) = Rejected e \<and>
      snd (init storage_read d now s) = s\<lparr>logged := logged s @ [e]\<rparr>) \<and>
   (storage_read = Inr (Some persisted) \<and> persisted \<noteq> [] \<and> subscriptions s \<noteq> [] \<longrightarrow>
      fst (restore_try storage_read d now s) =
        Rejected (RESTORE_WILL_OVERRIDE (getSubscriptionContext s)) \<and>
      snd (init storage_read d now s) =
        s\<lparr>logged := logged s @ [RESTORE_WILL_OVERRIDE (getSubscriptionContext s),
                                 RESTORE_WILL_OVERRIDE (getSubscriptionContext s)]\<rparr>) \<and>
   (storage_read = Inl e \<or>
    (storage_read = Inr (Some persisted) \<and> persisted \<noteq> [] \<and> subscriptions s \<noteq> []) \<longrightarrow>
      subscriptions (snd (init storage_read d now s)) = subscriptions s \<and>
      timeout (snd (init storage_read d now s)) = timeout s \<and>
      cached (snd (init storage_read d now s)) = cached s \<and>
      emitted (snd (init storage_read d now s)) = emitted s) \<and>
   (storage_read = Inr None \<or> storage_read = Inr (Some []) \<longrightarrow>
      snd (init storage_read d now s) = s)"
proof -
  have resolves: "fst (init storage_read d now s) = Resolved ()"
    by (simp add: init_def restore_def restore_try_def Let_def
        split: sum.splits option.splits prod.splits promise.splits)
  show ?thesis
    using resolves
    by (auto simp: init_def restore_def restore_try_def logger_error_def
        getSubscriptionContext_def)
qed


theorem init_never_rejects_witness:
  "subscriptions demo_store \<noteq> [] \<and>
   fst (init (Inr (Some (values_of demo_store))) 60 0 demo_store) = Resolved () \<and>
   snd (init (Inr (Some (values_of demo_store))) 60 0 demo_store) =
     demo_store\<lparr>logged := [RESTORE_WILL_OVERRIDE ''pairing settled'',
                             RESTORE_WILL_OVERRIDE ''pairing settled'']\<rparr> \<and>
   emitted (snd (init (Inr (Some (values_of demo_store))) 60 0 demo_store)) =
     emitted demo_store \<and>
   fst (init (Inl (EXTERNAL ''read failed'')) 60 0 demo_store) = Resolved () \<and>
   snd (init (Inl (EXTERNAL ''read failed'')) 60 0 demo_store) =
     demo_store\<lparr>logged := [EXTERNAL ''read failed'']\<rparr> \<and>
   snd (init (Inr None) 60 0 demo_store) = demo_store"
proof -
  have ne: "subscriptions demo_store \<noteq> []" and vs: "values_of demo_store \<noteq> []"
    and lg: "logged demo_store = []"
    and cx: "getSubscriptionContext demo_store = ''pairing settled''"
    by (simp_all add: demo_store_eq values_of_def getSubscriptionContext_def)
  note a = init_never_rejects [of "Inr (Some (values_of demo_store))" 60 0 demo_store
      "EXTERNAL ''read failed''" "values_of demo_store"]
  note b = init_never_rejects [of "Inl (EXTERNAL ''read failed'')" 60 0 demo_store
      "EXTERNAL ''read failed''" "values_of demo_store"]
  note c = init_never_rejects [of "Inr None" 60 0 demo_store
      "EXTERNAL ''read failed''" "values_of demo_store"]
  show ?thesis
    using a b c ne vs by (simp add: lg cx)
qed

section \<open>Claims about the relayer\<close>

text \<open>
  C1, evaluated. The relayer holds the ids \<open>a\<close> and \<open>b\<close> for topic \<open>t1\<close>. After
  \<open>unsubscribe(t1, {relay, id: a})\<close> the topic's ids are \<open>[a]\<close>: the id named is the one that
  stays, and \<open>b\<close> is gone. With \<open>[a]\<close> alone held, \<open>unsubscribe(t1, {relay})\<close> without an id
  leaves \<open>[a]\<close> in place.
\<close>

theorem unsubscribe_keeps_only_the_id:
  "fst (unsubscribe demo_collaborators demo_relayer ''t1''
          (Some \<lparr>unsub_relay = demo_relay, unsub_id = Some ''a''\<rparr>)) = Resolved () \<and>
   relayer_subscriptions
     (snd (unsubscribe demo_collaborators demo_relayer ''t1''
             (Some \<lparr>unsub_relay = demo_relay, unsub_id = Some ''a''\<rparr>))) =
     [(''t1'', [''a''])] \<and>
   fst (unsubscribe demo_collaborators
          (demo_relayer\<lparr>relayer_subscriptions := [(''t1'', [''a''])]\<rparr>) ''t1''
          (Some \<lparr>unsub_relay = demo_relay, unsub_id = None\<rparr>)) = Resolved () \<and>
   relayer_subscriptions
     (snd (unsubscribe demo_collaborators
             (demo_relayer\<lparr>relayer_subscriptions := [(''t1'', [''a''])]\<rparr>) ''t1''
             (Some \<lparr>unsub_relay = demo_relay, unsub_id = None\<rparr>))) =
     [(''t1'', [''a''])]"
  by (simp add: unsubscribe_def unsubscribeId_def demo_collaborators_def demo_relayer_def
      demo_relay_def getRelayProtocolJsonRpc_def RELAY_JSONRPC_def protocol_or_default_def
      RELAYER_DEFAULT_PROTOCOL_def Let_def)

text \<open>
  C6. The protocol of \<open>publish\<close> is the one in \<open>opts.relay\<close>, and \<open>waku\<close> when \<open>opts\<close> is
  missing or names the empty protocol. For a protocol the relay table knows, \<open>publish\<close>
  hands the provider one request, with method \<open><protocol>_publish\<close> and params topic,
  message and ttl, where the message is \<open>encrypt(topic, JSON)\<close> when the keychain has a key
  for the topic and \<open>utf8ToHex(JSON)\<close> otherwise, and the ttl is \<open>opts.ttl\<close> or the default.
  For an unknown protocol, or when encryption fails, nothing is sent and the call does not
  resolve.
\<close>

theorem publish_request:
  "protocol_or_default (map_option pub_relay opts) =
     (case opts of
        None \<Rightarrow> ''waku''
      | Some x \<Rightarrow> if protocol (pub_relay x) = [] then ''waku'' else protocol (pub_relay x)) \<and>
   (protocol_or_default (map_option pub_relay opts) \<in> set (supported_protocols c) \<longrightarrow>
      (hasKeys c tp \<and> encrypt c tp (safeJsonStringify c payload) = Inr sealed \<longrightarrow>
         requests (snd (publish c r tp payload opts)) =
           requests r @
             [\<lparr>rpc_method = protocol_or_default (map_option pub_relay opts) @ ''_publish'',
               rpc_params = PublishParams tp sealed
                 (case Option.bind opts pub_ttl of
                    None \<Rightarrow> RELAYER_DEFAULT_PUBLISH_TTL c
                  | Some t \<Rightarrow> if t = 0 then RELAYER_DEFAULT_PUBLISH_TTL c else t)\<rparr>]) \<and>
      (\<not> hasKeys c tp \<longrightarrow>
         requests (snd (publish c r tp payload opts)) =
           requests r @
             [\<lparr>rpc_method = protocol_or_default (map_option pub_relay opts) @ ''_publish'',
               rpc_params = PublishParams tp (utf8ToHex c (safeJsonStringify c payload))
                 (case Option.bind opts pub_ttl of
                    None \<Rightarrow> RELAYER_DEFAULT_PUBLISH_TTL c
                  | Some t \<Rightarrow> if t = 0 then RELAYER_DEFAULT_PUBLISH_TTL c else t)\<rparr>])) \<and>
   (protocol_or_default (map_option pub_relay opts) \<notin> set (supported_protocols c) \<or>
    (hasKeys c tp \<and> encrypt c tp (safeJsonStringify c payload) = Inl e) \<longrightarrow>
      requests (snd (publish c r tp payload opts)) = requests r \<and>
      fst (publish c r tp payload opts) \<noteq> Resolved ())"
proof -
  let ?P = "protocol_or_default (map_option pub_relay opts)"
  let ?msg = "safeJsonStringify c payload"
  let ?ttl = "case Option.bind opts pub_ttl of
                None \<Rightarrow> RELAYER_DEFAULT_PUBLISH_TTL c
              | Some t \<Rightarrow> if t = 0 then RELAYER_DEFAULT_PUBLISH_TTL c else t"
  have p: "?P = (case opts of
        None \<Rightarrow> ''waku''
      | Some x \<Rightarrow> if protocol (pub_relay x) = [] then ''waku'' else protocol (pub_relay x))"
    by (simp add: protocol_or_default_def RELAYER_DEFAULT_PROTOCOL_def split: option.splits)
  have sup: "?P \<in> set (supported_protocols c) \<Longrightarrow>
      getRelayProtocolJsonRpc (supported_protocols c) ?P =
        Inr \<lparr>rpc_publish = ?P @ ''_publish'', rpc_subscribe = ?P @ ''_subscribe'',
             rpc_subscription = ?P @ ''_subscription'',
             rpc_unsubscribe = ?P @ ''_unsubscribe''\<rparr>"
    by (simp add: getRelayProtocolJsonRpc_def RELAY_JSONRPC_def)
  have unsup: "?P \<notin> set (supported_protocols c) \<Longrightarrow>
      getRelayProtocolJsonRpc (supported_protocols c) ?P = Inl (RELAY_PROTOCOL_NOT_SUPPORTED ?P)"
    by (simp add: getRelayProtocolJsonRpc_def RELAY_JSONRPC_def)
  have sealed: "?P \<in> set (supported_protocols c) \<Longrightarrow> hasKeys c tp \<Longrightarrow>
      encrypt c tp ?msg = Inr sealed \<Longrightarrow>
      requests (snd (publish c r tp payload opts)) =
        requests r @ [\<lparr>rpc_method = ?P @ ''_publish'',
                        rpc_params = PublishParams tp sealed ?ttl\<rparr>]"
    by (simp add: publish_def Let_def sup relayer_error_def split: sum.splits)
  have plain: "?P \<in> set (supported_protocols c) \<Longrightarrow> \<not> hasKeys c tp \<Longrightarrow>
      requests (snd (publish c r tp payload opts)) =
        requests r @ [\<lparr>rpc_method = ?P @ ''_publish'',
                        rpc_params = PublishParams tp (utf8ToHex c ?msg) ?ttl\<rparr>]"
    by (simp add: publish_def Let_def sup relayer_error_def split: sum.splits)
  have nosup: "?P \<notin> set (supported_protocols c) \<Longrightarrow>
      requests (snd (publish c r tp payload opts)) = requests r \<and>
      fst (publish c r tp payload opts) \<noteq> Resolved ()"
    by (simp add: publish_def Let_def unsup relayer_error_def split: sum.splits)
  have noseal: "hasKeys c tp \<Longrightarrow> encrypt c tp ?msg = Inl e \<Longrightarrow>
      requests (snd (publish c r tp payload opts)) = requests r \<and>
      fst (publish c r tp payload opts) \<noteq> Resolved ()"
    by (simp add: publish_def Let_def relayer_error_def)
  show ?thesis
    using p sealed plain nosup noseal by blast
qed

theorem publish_request_witness:
  "hasKeys demo_collaborators ''t1'' \<and> \<not> hasKeys demo_collaborators ''t0'' \<and>
   supported_protocols demo_collaborators = [''waku'', ''bridge''] \<and>
   requests (snd (publish demo_collaborators demo_relayer ''t1'' ''ping'' None)) =
     [\<lparr>rpc_method = ''waku_publish'',
       rpc_params = PublishParams ''t1'' ''sealed:ping'' 21600\<rparr>] \<and>
   requests (snd (publish demo_collaborators demo_relayer ''t0'' ''ping''
                    (Some \<lparr>pub_relay = \<lparr>protocol = ''bridge'', params = None\<rparr>,
                           pub_ttl = Some 30\<rparr>))) =
     [\<lparr>rpc_method = ''bridge_publish'',
       rpc_params = PublishParams ''t0'' ''hex:ping'' 30\<rparr>] \<and>
   requests (snd (publish demo_collaborators demo_relayer ''t0'' ''ping''
                    (Some \<lparr>pub_relay = \<lparr>protocol = ''irn'', params = None\<rparr>,
                           pub_ttl = None\<rparr>))) = []"
proof -
  note a = publish_request [of None demo_collaborators "''t1''" "''ping''"
      "''sealed:ping''" demo_relayer "EXTERNAL ''none''"]
  note b = publish_request [of "Some \<lparr>pub_relay = \<lparr>protocol = ''bridge'', params = None\<rparr>,
      pub_ttl = Some 30\<rparr>" demo_collaborators "''t0''" "''ping''"
      "''sealed:ping''" demo_relayer "EXTERNAL ''none''"]
  note c = publish_request [of "Some \<lparr>pub_relay = \<lparr>protocol = ''irn'', params = None\<rparr>,
      pub_ttl = None\<rparr>" demo_collaborators "''t0''" "''ping''"
      "''sealed:ping''" demo_relayer "EXTERNAL ''none''"]
  have r: "requests demo_relayer = []"
    by (simp add: demo_relayer_def)
  have a': "requests (snd (publish demo_collaborators demo_relayer ''t1'' ''ping'' None)) =
     [\<lparr>rpc_method = ''waku_publish'',
       rpc_params = PublishParams ''t1'' ''sealed:ping'' 21600\<rparr>]"
    using a by (simp add: demo_collaborators_def r)
  have b': "requests (snd (publish demo_collaborators demo_relayer ''t0'' ''ping''
                    (Some \<lparr>pub_relay = \<lparr>protocol = ''bridge'', params = None\<rparr>,
                           pub_ttl = Some 30\<rparr>))) =
     [\<lparr>rpc_method = ''bridge_publish'',
       rpc_params = PublishParams ''t0'' ''hex:ping'' 30\<rparr>]"
    using b by (simp add: demo_collaborators_def r)
  have c': "requests (snd (publish demo_collaborators demo_relayer ''t0'' ''ping''
                    (Some \<lparr>pub_relay = \<lparr>protocol = ''irn'', params = None\<rparr>,
                           pub_ttl = None\<rparr>))) = []"
    using c by (simp add: demo_collaborators_def r)
  have h: "hasKeys demo_collaborators ''t1'' \<and> \<not> hasKeys demo_collaborators ''t0'' \<and>
           supported_protocols demo_collaborators = [''waku'', ''bridge'']"
    by (simp add: demo_collaborators_def)
  show ?thesis
    using h a' b' c' by blast
qed

section \<open>Claims about the pairing controller and the client\<close>

lemma demo_settled_eq:
  "demo_settled =
     \<lparr>subscriptions =
        [(''t1'', \<lparr>topic = ''t1'', sequence = demo_pairing, relay = demo_relay,
                   expiry = 2592000000\<rparr>)],
      timeout = Map.empty, cached = [], nested_context = [''pairing'', ''settled''],
      emitted = [], logged = [], started = []\<rparr>"
  by (simp add: demo_settled_def new_Subscription_def subscribeAndSet_def setTimeout_def
      Let_def CLIENT_BEAT_INTERVAL_def FIVE_SECONDS_def)

lemma get_present:
  "isEnabled s \<Longrightarrow> map_of (subscriptions s) tp = Some sub \<Longrightarrow>
   get s tp = (Resolved (sequence sub), s)"
  by (simp add: get_def getSubscription_def)

lemma upgrade_applied_grows:
  "set (methods (jsonrpc (permissions settled))) \<subseteq>
     set (methods (jsonrpc (permissions (fold upgrade_applied upgrades settled)))) \<and>
   set (types (notifications (permissions settled))) \<subseteq>
     set (types (notifications (permissions (fold upgrade_applied upgrades settled)))) \<and>
   controller (permissions (fold upgrade_applied upgrades settled)) =
     controller (permissions settled)"
proof (induction upgrades arbitrary: settled)
  case Nil
  show ?case by simp
next
  case (Cons u us)
  have step: "set (methods (jsonrpc (permissions settled))) \<subseteq>
                set (methods (jsonrpc (permissions (upgrade_applied u settled)))) \<and>
              set (types (notifications (permissions settled))) \<subseteq>
                set (types (notifications (permissions (upgrade_applied u settled)))) \<and>
              controller (permissions (upgrade_applied u settled)) =
                controller (permissions settled)"
    by (simp add: upgrade_applied_def upgraded_permissions_def)
  show ?case
    using step Cons.IH[of "upgrade_applied u settled"] by auto
qed

text \<open>
  C2 as stated fails: the settled pairing allows \<open>wc_sessionPropose\<close> and the upgrade
  proposes \<open>wc_sessionPropose\<close> and \<open>wc_sessionPing\<close>. \<open>mergeUpgrade\<close> returns the methods
  with \<open>wc_sessionPropose\<close> twice, which is not the ordered-set union of the two lists.
\<close>

theorem mergeUpgrade_duplicates_counterexample:
  "isEnabled demo_settled \<and>
   map_of (subscriptions demo_settled) ''t1'' =
     Some \<lparr>topic = ''t1'', sequence = demo_pairing, relay = demo_relay,
           expiry = 2592000000\<rparr> \<and>
   fst (mergeUpgrade demo_settled ''t1'' demo_upgrade) =
     Resolved \<lparr>jsonrpc = \<lparr>methods = [''wc_sessionPropose'', ''wc_sessionPropose'',
                                     ''wc_sessionPing'']\<rparr>,
               notifications = \<lparr>types = []\<rparr>, controller = ''pkB''\<rparr> \<and>
   ordered_union [''wc_sessionPropose''] [''wc_sessionPropose'', ''wc_sessionPing''] =
     [''wc_sessionPropose'', ''wc_sessionPing'']"
  by (simp add: demo_settled_eq isEnabled_def mergeUpgrade_def get_def getSubscription_def
      upgraded_permissions_def demo_pairing_def demo_upgrade_def ordered_union_def)

text \<open>
  C2, amended. For a topic held by the enabled store of settled pairings, \<open>mergeUpgrade\<close>
  resolves and leaves the store as it is. The methods it returns are the settled methods
  followed by the proposed ones, and the types the settled types followed by the proposed
  ones, so as sets they are the unions (a name both lists hold appears twice); the
  controller is the settled one. After any sequence of upgrades applied, the methods and
  the types include the initial ones and the controller is unchanged.
\<close>

theorem mergeUpgrade_appends:
  assumes "isEnabled s" and "map_of (subscriptions s) tp = Some sub"
  shows
    "mergeUpgrade s tp upgrade = (Resolved (upgraded_permissions (sequence sub) upgrade), s) \<and>
     methods (jsonrpc (upgraded_permissions (sequence sub) upgrade)) =
       methods (jsonrpc (permissions (sequence sub))) @
         (case proposed_jsonrpc upgrade of None \<Rightarrow> [] | Some j \<Rightarrow> methods j) \<and>
     types (notifications (upgraded_permissions (sequence sub) upgrade)) =
       types (notifications (permissions (sequence sub))) @
         (case proposed_notifications upgrade of None \<Rightarrow> [] | Some n \<Rightarrow> types n) \<and>
     set (methods (jsonrpc (upgraded_permissions (sequence sub) upgrade))) =
       set (ordered_union (methods (jsonrpc (permissions (sequence sub))))
              (case proposed_jsonrpc upgrade of None \<Rightarrow> [] | Some j \<Rightarrow> methods j)) \<and>
     set (types (notifications (upgraded_permissions (sequence sub) upgrade))) =
       set (ordered_union (types (notifications (permissions (sequence sub))))
              (case proposed_notifications upgrade of None \<Rightarrow> [] | Some n \<Rightarrow> types n)) \<and>
     controller (upgraded_permissions (sequence sub) upgrade) =
       controller (permissions (sequence sub)) \<and>
     set (methods (jsonrpc (permissions (sequence sub)))) \<subseteq>
       set (methods (jsonrpc (permissions (fold upgrade_applied upgrades (sequence sub))))) \<and>
     set (types (notifications (permissions (sequence sub)))) \<subseteq>
       set (types (notifications (permissions (fold upgrade_applied upgrades (sequence sub))))) \<and>
     controller (permissions (fold upgrade_applied upgrades (sequence sub))) =
       controller (permissions (sequence sub))"
proof -
  have run: "mergeUpgrade s tp upgrade =
      (Resolved (upgraded_permissions (sequence sub) upgrade), s)"
    using assms by (simp add: mergeUpgrade_def get_present)
  have lists: "methods (jsonrpc (upgraded_permissions (sequence sub) upgrade)) =
       methods (jsonrpc (permissions (sequence sub))) @
         (case proposed_jsonrpc upgrade of None \<Rightarrow> [] | Some j \<Rightarrow> methods j) \<and>
     types (notifications (upgraded_permissions (sequence sub) upgrade)) =
       types (notifications (permissions (sequence sub))) @
         (case proposed_notifications upgrade of None \<Rightarrow> [] | Some n \<Rightarrow> types n) \<and>
     controller (upgraded_permissions (sequence sub) upgrade) =
       controller (permissions (sequence sub))"
    by (simp add: upgraded_permissions_def)
  have sets: "\<And>xs ys. set (xs @ ys) = set (ordered_union xs ys)"
    by (auto simp: ordered_union_def)
  have sm: "set (methods (jsonrpc (upgraded_permissions (sequence sub) upgrade))) =
       set (ordered_union (methods (jsonrpc (permissions (sequence sub))))
              (case proposed_jsonrpc upgrade of None \<Rightarrow> [] | Some j \<Rightarrow> methods j))"
    by (simp only: lists sets)
  have st: "set (types (notifications (upgraded_permissions (sequence sub) upgrade))) =
       set (ordered_union (types (notifications (permissions (sequence sub))))
              (case proposed_notifications upgrade of None \<Rightarrow> [] | Some n \<Rightarrow> types n))"
    by (simp only: lists sets)
  show ?thesis
    using run lists sm st upgrade_applied_grows[of "sequence sub" upgrades]
    by blast
qed


theorem mergeUpgrade_appends_witness:
  "isEnabled demo_settled \<and>
   map_of (subscriptions demo_settled) ''t1'' =
     Some \<lparr>topic = ''t1'', sequence = demo_pairing, relay = demo_relay,
           expiry = 2592000000\<rparr> \<and>
   fst (mergeUpgrade demo_settled ''t1'' demo_upgrade) =
     Resolved (upgraded_permissions demo_pairing demo_upgrade) \<and>
   methods (jsonrpc (upgraded_permissions demo_pairing demo_upgrade)) =
     [''wc_sessionPropose'', ''wc_sessionPropose'', ''wc_sessionPing''] \<and>
   set (methods (jsonrpc (upgraded_permissions demo_pairing demo_upgrade))) =
     {''wc_sessionPropose'', ''wc_sessionPing''} \<and>
   controller (upgraded_permissions demo_pairing demo_upgrade) = ''pkB'' \<and>
   set (methods (jsonrpc (permissions demo_pairing))) \<subseteq>
     set (methods (jsonrpc (permissions
            (fold upgrade_applied [demo_upgrade, demo_upgrade] demo_pairing))))"
proof -
  have en: "isEnabled demo_settled"
    and look: "map_of (subscriptions demo_settled) ''t1'' =
      Some \<lparr>topic = ''t1'', sequence = demo_pairing, relay = demo_relay,
            expiry = 2592000000\<rparr>"
    by (simp_all add: demo_settled_eq isEnabled_def)
  note a = mergeUpgrade_appends [OF en look, of demo_upgrade "[demo_upgrade, demo_upgrade]"]
  have m: "methods (jsonrpc (permissions demo_pairing)) = [''wc_sessionPropose'']"
    and u: "proposed_jsonrpc demo_upgrade =
              Some \<lparr>methods = [''wc_sessionPropose'', ''wc_sessionPing'']\<rparr>"
    and c: "controller (permissions demo_pairing) = ''pkB''"
    by (simp_all add: demo_pairing_def demo_upgrade_def)
  have r1: "fst (mergeUpgrade demo_settled ''t1'' demo_upgrade) =
     Resolved (upgraded_permissions demo_pairing demo_upgrade)"
    using a by simp
  have r2: "methods (jsonrpc (upgraded_permissions demo_pairing demo_upgrade)) =
     [''wc_sessionPropose'', ''wc_sessionPropose'', ''wc_sessionPing'']"
    using a by (simp add: m u)
  have r3: "set (methods (jsonrpc (upgraded_permissions demo_pairing demo_upgrade))) =
     {''wc_sessionPropose'', ''wc_sessionPing''}"
    using r2 by auto
  have r4: "controller (upgraded_permissions demo_pairing demo_upgrade) = ''pkB''"
    using a by (simp add: c)
  have r5: "set (methods (jsonrpc (permissions demo_pairing))) \<subseteq>
     set (methods (jsonrpc (permissions
            (fold upgrade_applied [demo_upgrade, demo_upgrade] demo_pairing))))"
    using a by simp
  show ?thesis
    using en look r1 r2 r3 r4 r5 by blast
qed

text \<open>
  C5. The proposal \<open>pair\<close> builds from a URI carries the URI's controller flag. When that
  flag equals the client's own, \<open>pair\<close> responds with \<open>approved = false\<close> and the reason
  \<open>UNAUTHORIZED_MATCHING_CONTROLLER\<close>, the engine replies with a reject, stores no settled
  sequence, and \<open>pair\<close> rejects with that reason; when the flags differ, \<open>pair\<close> responds
  with \<open>approved = true\<close> and no reason and resolves with the settled topic. A
  \<open>wc_sessionPropose\<close> request whose proposer's flag equals the client's own is answered
  with a reject carrying the same reason: no settled session is stored and no proposal
  event emitted.
\<close>

theorem matching_controller_is_rejected:
  "proposer_controller (proposer (proposal (pair_respond parseUri cl uri))) =
     uri_controller (parseUri uri) \<and>
   (uri_controller (parseUri uri) = client_controller cl \<longrightarrow>
      approved (pair_respond parseUri cl uri) = False \<and>
      respond_reason (pair_respond parseUri cl uri) =
        Some (UNAUTHORIZED_MATCHING_CONTROLLER (client_controller cl)) \<and>
      fst (pair derive parseUri cl uri) =
        Rejected (UNAUTHORIZED_MATCHING_CONTROLLER (client_controller cl)) \<and>
      engine_settled (pairing_engine (snd (pair derive parseUri cl uri))) =
        engine_settled (pairing_engine cl) \<and>
      engine_replies (pairing_engine (snd (pair derive parseUri cl uri))) =
        engine_replies (pairing_engine cl) @
          [(uri_topic (parseUri uri),
            Reject (Some (UNAUTHORIZED_MATCHING_CONTROLLER (client_controller cl))))]) \<and>
   (uri_controller (parseUri uri) \<noteq> client_controller cl \<longrightarrow>
      approved (pair_respond parseUri cl uri) = True \<and>
      respond_reason (pair_respond parseUri cl uri) = None \<and>
      fst (pair derive parseUri cl uri) =
        Resolved (derive (formatPairingProposal parseUri uri)) \<and>
      engine_replies (pairing_engine (snd (pair derive parseUri cl uri))) =
        engine_replies (pairing_engine cl) @
          [(uri_topic (parseUri uri),
            Approve (derive (formatPairingProposal parseUri uri)) None)]) \<and>
   (request_method rq = SESSION_JSONRPC_propose \<and>
    proposer_controller (proposer (request_params rq)) = client_controller cl \<longrightarrow>
      engine_replies (session_engine (on_pairing_request derive' cl rq)) =
        engine_replies (session_engine cl) @
          [(proposal_topic (request_params rq),
            Reject (Some (UNAUTHORIZED_MATCHING_CONTROLLER (client_controller cl))))] \<and>
      engine_settled (session_engine (on_pairing_request derive' cl rq)) =
        engine_settled (session_engine cl) \<and>
      session_proposals (on_pairing_request derive' cl rq) = session_proposals cl)"
proof -
  have flag: "proposer_controller (proposer (proposal (pair_respond parseUri cl uri))) =
     uri_controller (parseUri uri)"
    by (simp add: pair_respond_def formatPairingProposal_def Let_def)
  have topic: "proposal_topic (proposal (pair_respond parseUri cl uri)) = uri_topic (parseUri uri)"
    and same_proposal: "proposal (pair_respond parseUri cl uri) = formatPairingProposal parseUri uri"
    and resp: "response (pair_respond parseUri cl uri) = None"
    by (simp_all add: pair_respond_def formatPairingProposal_def Let_def)
  have same: "uri_controller (parseUri uri) = client_controller cl \<Longrightarrow>
      approved (pair_respond parseUri cl uri) = False \<and>
      respond_reason (pair_respond parseUri cl uri) =
        Some (UNAUTHORIZED_MATCHING_CONTROLLER (client_controller cl))"
    by (simp add: pair_respond_def formatPairingProposal_def Let_def)
  have differ: "uri_controller (parseUri uri) \<noteq> client_controller cl \<Longrightarrow>
      approved (pair_respond parseUri cl uri) = True \<and>
      respond_reason (pair_respond parseUri cl uri) = None"
    by (simp add: pair_respond_def formatPairingProposal_def Let_def)
  have rejected: "uri_controller (parseUri uri) = client_controller cl \<Longrightarrow>
      fst (pair derive parseUri cl uri) =
        Rejected (UNAUTHORIZED_MATCHING_CONTROLLER (client_controller cl)) \<and>
      engine_settled (pairing_engine (snd (pair derive parseUri cl uri))) =
        engine_settled (pairing_engine cl) \<and>
      engine_replies (pairing_engine (snd (pair derive parseUri cl uri))) =
        engine_replies (pairing_engine cl) @
          [(uri_topic (parseUri uri),
            Reject (Some (UNAUTHORIZED_MATCHING_CONTROLLER (client_controller cl))))]"
    using same topic
    by (simp add: pair_def Engine_respond_def Let_def isPairingResponded_def)
  have accepted: "uri_controller (parseUri uri) \<noteq> client_controller cl \<Longrightarrow>
      fst (pair derive parseUri cl uri) =
        Resolved (derive (formatPairingProposal parseUri uri)) \<and>
      engine_replies (pairing_engine (snd (pair derive parseUri cl uri))) =
        engine_replies (pairing_engine cl) @
          [(uri_topic (parseUri uri),
            Approve (derive (formatPairingProposal parseUri uri)) None)]"
    using differ topic same_proposal resp
    by (simp add: pair_def Engine_respond_def Let_def isPairingResponded_def)
  have listener: "request_method rq = SESSION_JSONRPC_propose \<and>
    proposer_controller (proposer (request_params rq)) = client_controller cl \<Longrightarrow>
      engine_replies (session_engine (on_pairing_request derive' cl rq)) =
        engine_replies (session_engine cl) @
          [(proposal_topic (request_params rq),
            Reject (Some (UNAUTHORIZED_MATCHING_CONTROLLER (client_controller cl))))] \<and>
      engine_settled (session_engine (on_pairing_request derive' cl rq)) =
        engine_settled (session_engine cl) \<and>
      session_proposals (on_pairing_request derive' cl rq) = session_proposals cl"
    by (simp add: on_pairing_request_def Engine_respond_def Let_def)
  show ?thesis
    using flag same differ rejected accepted listener by blast
qed


theorem matching_controller_is_rejected_witness:
  "uri_controller (demo_parseUri ''wc:t0@2?controller=1'') = client_controller demo_client \<and>
   fst (pair demo_derive demo_parseUri demo_client ''wc:t0@2?controller=1'') =
     Rejected (UNAUTHORIZED_MATCHING_CONTROLLER True) \<and>
   engine_settled (pairing_engine
     (snd (pair demo_derive demo_parseUri demo_client ''wc:t0@2?controller=1''))) = [] \<and>
   engine_replies (pairing_engine
     (snd (pair demo_derive demo_parseUri demo_client ''wc:t0@2?controller=1''))) =
     [(''t0'', Reject (Some (UNAUTHORIZED_MATCHING_CONTROLLER True)))] \<and>
   uri_controller (demo_parseUri ''wc:t0@2?controller=0'') \<noteq> client_controller demo_client \<and>
   approved (pair_respond demo_parseUri demo_client ''wc:t0@2?controller=0'') \<and>
   fst (pair demo_derive demo_parseUri demo_client ''wc:t0@2?controller=0'') =
     Resolved ''settled:t0'' \<and>
   request_method \<lparr>request_method = ''wc_sessionPropose'',
                    request_params = demo_session_proposal\<rparr> = SESSION_JSONRPC_propose \<and>
   proposer_controller (proposer demo_session_proposal) = client_controller demo_client \<and>
   engine_replies (session_engine
     (on_pairing_request demo_derive demo_client
        \<lparr>request_method = ''wc_sessionPropose'', request_params = demo_session_proposal\<rparr>)) =
     [(''t2'', Reject (Some (UNAUTHORIZED_MATCHING_CONTROLLER True)))] \<and>
   engine_settled (session_engine
     (on_pairing_request demo_derive demo_client
        \<lparr>request_method = ''wc_sessionPropose'', request_params = demo_session_proposal\<rparr>)) = []"
proof -
  let ?rq = "\<lparr>request_method = ''wc_sessionPropose'', request_params = demo_session_proposal\<rparr>"
  have same: "uri_controller (demo_parseUri ''wc:t0@2?controller=1'') =
                client_controller demo_client"
    and differ: "uri_controller (demo_parseUri ''wc:t0@2?controller=0'') \<noteq>
                   client_controller demo_client"
    and tp: "uri_topic (demo_parseUri ''wc:t0@2?controller=1'') = ''t0''"
    and cc: "client_controller demo_client = True"
    and empty: "engine_settled (pairing_engine demo_client) = []"
      "engine_replies (pairing_engine demo_client) = []"
      "engine_settled (session_engine demo_client) = []"
      "engine_replies (session_engine demo_client) = []"
    by (simp_all add: demo_parseUri_def demo_client_def)
  have rq: "request_method ?rq = SESSION_JSONRPC_propose"
    and pc: "proposer_controller (proposer demo_session_proposal) = client_controller demo_client"
    and pc': "proposer_controller (proposer (request_params ?rq)) = client_controller demo_client"
    and pt: "proposal_topic demo_session_proposal = ''t2''"
    by (simp_all add: SESSION_JSONRPC_propose_def demo_session_proposal_def demo_client_def)
  have derived: "demo_derive (formatPairingProposal demo_parseUri ''wc:t0@2?controller=0'') =
                   ''settled:t0''"
    by (simp add: demo_derive_def formatPairingProposal_def demo_parseUri_def Let_def)
  note a = matching_controller_is_rejected [where parseUri = demo_parseUri
      and cl = demo_client and uri = "''wc:t0@2?controller=1''" and derive = demo_derive
      and rq = ?rq and derive' = demo_derive]
  note b = matching_controller_is_rejected [where parseUri = demo_parseUri
      and cl = demo_client and uri = "''wc:t0@2?controller=0''" and derive = demo_derive
      and rq = ?rq and derive' = demo_derive]
  from a same
  have a1: "fst (pair demo_derive demo_parseUri demo_client ''wc:t0@2?controller=1'') =
        Rejected (UNAUTHORIZED_MATCHING_CONTROLLER (client_controller demo_client)) \<and>
      engine_settled (pairing_engine
          (snd (pair demo_derive demo_parseUri demo_client ''wc:t0@2?controller=1''))) =
        engine_settled (pairing_engine demo_client) \<and>
      engine_replies (pairing_engine
          (snd (pair demo_derive demo_parseUri demo_client ''wc:t0@2?controller=1''))) =
        engine_replies (pairing_engine demo_client) @
          [(uri_topic (demo_parseUri ''wc:t0@2?controller=1''),
            Reject (Some (UNAUTHORIZED_MATCHING_CONTROLLER (client_controller demo_client))))]"
    by blast
  have r1: "fst (pair demo_derive demo_parseUri demo_client ''wc:t0@2?controller=1'') =
     Rejected (UNAUTHORIZED_MATCHING_CONTROLLER True)"
    and r2: "engine_settled (pairing_engine
     (snd (pair demo_derive demo_parseUri demo_client ''wc:t0@2?controller=1''))) = []"
    and r3: "engine_replies (pairing_engine
     (snd (pair demo_derive demo_parseUri demo_client ''wc:t0@2?controller=1''))) =
     [(''t0'', Reject (Some (UNAUTHORIZED_MATCHING_CONTROLLER True)))]"
    using a1 by (simp_all add: tp cc empty)
  from b differ
  have b1: "approved (pair_respond demo_parseUri demo_client ''wc:t0@2?controller=0'') = True \<and>
      fst (pair demo_derive demo_parseUri demo_client ''wc:t0@2?controller=0'') =
        Resolved (demo_derive (formatPairingProposal demo_parseUri ''wc:t0@2?controller=0''))"
    by blast
  have r4: "approved (pair_respond demo_parseUri demo_client ''wc:t0@2?controller=0'')"
    and r5: "fst (pair demo_derive demo_parseUri demo_client ''wc:t0@2?controller=0'') =
     Resolved ''settled:t0''"
    using b1 by (simp_all add: derived)
  from a rq pc'
  have c1: "engine_replies (session_engine (on_pairing_request demo_derive demo_client ?rq)) =
        engine_replies (session_engine demo_client) @
          [(proposal_topic (request_params ?rq),
            Reject (Some (UNAUTHORIZED_MATCHING_CONTROLLER (client_controller demo_client))))] \<and>
      engine_settled (session_engine (on_pairing_request demo_derive demo_client ?rq)) =
        engine_settled (session_engine demo_client)"
    by blast
  have r6: "engine_replies (session_engine (on_pairing_request demo_derive demo_client ?rq)) =
     [(''t2'', Reject (Some (UNAUTHORIZED_MATCHING_CONTROLLER True)))]"
    and r7: "engine_settled (session_engine (on_pairing_request demo_derive demo_client ?rq)) = []"
    using c1 by (simp_all add: pt cc empty)
  show ?thesis
    using same differ rq pc r1 r2 r3 r4 r5 r6 r7 by blast
qed

text \<open>
  C8. The outcome of \<open>connect\<close> does not depend on the \<open>notifications\<close> property of the
  caller's permissions. When the pairing is found and metadata is available, \<open>connect\<close>
  calls \<open>session.create\<close> with the caller's blockchain and jsonrpc permissions and with
  notifications whose types are empty.
\<close>

theorem connect_notifications_default:
  "connect pairing_create session_create cl settled_store
     (ps\<lparr>connect_permissions := (connect_permissions ps)\<lparr>connect_notifications := n\<rparr>\<rparr>) =
   connect pairing_create session_create cl settled_store ps \<and>
   ((case connect_pairing ps of
       None \<Rightarrow> (pairing_create, settled_store)
     | Some tp \<Rightarrow> get settled_store tp) = (Resolved pairing, s') \<and>
    (case connect_metadata ps of Some m \<Rightarrow> Some m | None \<Rightarrow> client_metadata cl) = Some md \<longrightarrow>
      connect pairing_create session_create cl settled_store ps =
        (session_create
           \<lparr>create_signal = \<lparr>signal_method = ''pairing'', signal_params = settled_topic pairing\<rparr>,
            create_relay = (case connect_relay ps of
                              Some r \<Rightarrow> r
                            | None \<Rightarrow> \<lparr>protocol = ''waku'', params = None\<rparr>),
            create_metadata = md,
            create_permissions =
              \<lparr>session_blockchain = connect_blockchain (connect_permissions ps),
               session_jsonrpc = connect_jsonrpc (connect_permissions ps),
               session_notifications = \<lparr>types = []\<rparr>\<rparr>\<rparr>,
         s'))"
proof -
  have indep: "connect pairing_create session_create cl settled_store
     (ps\<lparr>connect_permissions := (connect_permissions ps)\<lparr>connect_notifications := n\<rparr>\<rparr>) =
     connect pairing_create session_create cl settled_store ps"
    by (simp add: connect_def cong: prod.case_cong promise.case_cong option.case_cong)
  have passed: "(case connect_pairing ps of
       None \<Rightarrow> (pairing_create, settled_store)
     | Some tp \<Rightarrow> get settled_store tp) = (Resolved pairing, s') \<Longrightarrow>
    (case connect_metadata ps of Some m \<Rightarrow> Some m | None \<Rightarrow> client_metadata cl) = Some md \<Longrightarrow>
      connect pairing_create session_create cl settled_store ps =
        (session_create
           \<lparr>create_signal = \<lparr>signal_method = ''pairing'', signal_params = settled_topic pairing\<rparr>,
            create_relay = (case connect_relay ps of
                              Some r \<Rightarrow> r
                            | None \<Rightarrow> \<lparr>protocol = ''waku'', params = None\<rparr>),
            create_metadata = md,
            create_permissions =
              \<lparr>session_blockchain = connect_blockchain (connect_permissions ps),
               session_jsonrpc = connect_jsonrpc (connect_permissions ps),
               session_notifications = \<lparr>types = []\<rparr>\<rparr>\<rparr>,
         s')"
    by (simp add: connect_def SESSION_SIGNAL_METHOD_PAIRING_def RELAYER_DEFAULT_PROTOCOL_def
        SESSION_EMPTY_PERMISSIONS_def cong: option.case_cong)
  show ?thesis
    using indep passed by blast
qed

theorem connect_notifications_default_witness:
  "connect_notifications (connect_permissions demo_connect) =
     Some \<lparr>types = [''accountsChanged'']\<rparr> \<and>
   get demo_settled ''t1'' = (Resolved demo_pairing, demo_settled) \<and>
   connect (Rejected (EXTERNAL ''unused'')) Resolved demo_client demo_settled demo_connect =
     (Resolved
        \<lparr>create_signal = \<lparr>signal_method = ''pairing'', signal_params = ''t1''\<rparr>,
         create_relay = \<lparr>protocol = ''waku'', params = None\<rparr>,
         create_metadata =
           \<lparr>md_name = ''React App'', md_description = ''React App for WalletConnect'',
            md_url = ''https://walletconnect.org/'', md_icons = []\<rparr>,
         create_permissions =
           \<lparr>session_blockchain = \<lparr>chains = [''eip155:1'']\<rparr>,
            session_jsonrpc = \<lparr>methods = [''eth_sendTransaction'', ''personal_sign'']\<rparr>,
            session_notifications = \<lparr>types = []\<rparr>\<rparr>\<rparr>,
      demo_settled)"
proof -
  have n: "connect_notifications (connect_permissions demo_connect) =
             Some \<lparr>types = [''accountsChanged'']\<rparr>"
    by (simp add: demo_connect_def)
  have g: "get demo_settled ''t1'' = (Resolved demo_pairing, demo_settled)"
    using get_present [of demo_settled "''t1''"
        "\<lparr>topic = ''t1'', sequence = demo_pairing, relay = demo_relay, expiry = 2592000000\<rparr>"]
    by (simp add: demo_settled_eq isEnabled_def)
  have p: "(case connect_pairing demo_connect of
       None \<Rightarrow> (Rejected (EXTERNAL ''unused''), demo_settled)
     | Some tp \<Rightarrow> get demo_settled tp) = (Resolved demo_pairing, demo_settled)"
    using g by (simp add: demo_connect_def)
  have m: "(case connect_metadata demo_connect of
              Some m \<Rightarrow> Some m | None \<Rightarrow> client_metadata demo_client) =
           Some \<lparr>md_name = ''React App'', md_description = ''React App for WalletConnect'',
                 md_url = ''https://walletconnect.org/'', md_icons = []\<rparr>"
    by (simp add: demo_connect_def)
  note a = connect_notifications_default [where pairing_create = "Rejected (EXTERNAL ''unused'')"
      and session_create = Resolved and cl = demo_client and settled_store = demo_settled
      and ps = demo_connect and n = None and pairing = demo_pairing and s' = demo_settled
      and md = "\<lparr>md_name = ''React App'', md_description = ''React App for WalletConnect'',
        md_url = ''https://walletconnect.org/'', md_icons = []\<rparr>"]
  have r: "connect (Rejected (EXTERNAL ''unused'')) Resolved demo_client demo_settled demo_connect =
     (Resolved
        \<lparr>create_signal = \<lparr>signal_method = ''pairing'', signal_params = ''t1''\<rparr>,
         create_relay = \<lparr>protocol = ''waku'', params = None\<rparr>,
         create_metadata =
           \<lparr>md_name = ''React App'', md_description = ''React App for WalletConnect'',
            md_url = ''https://walletconnect.org/'', md_icons = []\<rparr>,
         create_permissions =
           \<lparr>session_blockchain = \<lparr>chains = [''eip155:1'']\<rparr>,
            session_jsonrpc = \<lparr>methods = [''eth_sendTransaction'', ''personal_sign'']\<rparr>,
            session_notifications = \<lparr>types = []\<rparr>\<rparr>\<rparr>,
      demo_settled)"
    using a p m by (simp add: demo_connect_def demo_pairing_def)
  show ?thesis
    using n g r by blast
qed

end
